theory Spec2Isabelle
  imports Complex_Main "HOL-Library.AList" "HOL-Library.Multiset"
    "HOL-Library.Char_ord" "HOL-Library.List_Lexorder"
begin

section \<open>Tables: the fragment of the data-frame library the forecasters use\<close>

text \<open>
  Both forecasters (\<^verbatim>\<open>scr/ARIMA_lib.py\<close>, \<^verbatim>\<open>scr/xgb_lib.py\<close>) keep their data in
  data frames. A cell is a string, a number or the missing value; a row gives a cell to
  each column name (a column that the row does not mention reads as the missing value,
  which is what concatenating tables with different columns produces); a frame is a list
  of column names and a list of rows.
\<close>

datatype error = KeyError string | ValueError | TypeError | AttributeError | IndexError

datatype cell = Str string | Num real | NaN

type_synonym row = "(string \<times> cell) list"

record frame =
  columns :: "string list"
  rows :: "row list"

definition cell_at :: "row \<Rightarrow> string \<Rightarrow> cell" where
  "cell_at r c = (case map_of r c of Some v \<Rightarrow> v | None \<Rightarrow> NaN)"

text \<open>\<^verbatim>\<open>df[c]\<close>: the column, or \<^verbatim>\<open>KeyError\<close> when the frame has no such column.\<close>

definition df_col :: "frame \<Rightarrow> string \<Rightarrow> error + cell list" where
  "df_col df c =
     (if c \<in> set (columns df) then Inr (map (\<lambda>r. cell_at r c) (rows df))
      else Inl (KeyError c))"

text \<open>\<^verbatim>\<open>df.assign(c=v)\<close>: a new frame whose column \<open>c\<close> holds \<open>v\<close> in every row
  (added as the last column, or overwritten in place).\<close>

definition df_assign :: "string \<Rightarrow> cell \<Rightarrow> frame \<Rightarrow> frame" where
  "df_assign c v df =
     \<lparr>columns = (if c \<in> set (columns df) then columns df else columns df @ [c]),
      rows = map (AList.update c v) (rows df)\<rparr>"

text \<open>Values in order of first appearance (\<^verbatim>\<open>Series.unique()\<close>, and the union of
  column names when frames are concatenated).\<close>

fun uniq_acc :: "'a list \<Rightarrow> 'a list \<Rightarrow> 'a list" where
  "uniq_acc seen [] = []"
| "uniq_acc seen (x # xs) =
     (if x \<in> set seen then uniq_acc seen xs else x # uniq_acc (x # seen) xs)"

definition unique :: "'a list \<Rightarrow> 'a list" where
  "unique xs = uniq_acc [] xs"

text \<open>\<^verbatim>\<open>pd.concat(frames)\<close>: \<^verbatim>\<open>ValueError\<close> on an empty list; otherwise the rows of
  all frames, in order, over the union of their columns, a missing cell where a frame
  lacks a column.\<close>

definition df_concat :: "frame list \<Rightarrow> error + frame" where
  "df_concat fs =
     (if fs = [] then Inl ValueError
      else let cols = unique (concat (map columns fs))
           in Inr \<lparr>columns = cols,
                   rows = map (\<lambda>r. map (\<lambda>c. (c, cell_at r c)) cols) (concat (map rows fs))\<rparr>)"

text \<open>\<^verbatim>\<open>df[mask]\<close>: the rows at which the boolean mask is true, in order.\<close>

definition df_mask :: "frame \<Rightarrow> bool list \<Rightarrow> frame" where
  "df_mask df bs = \<lparr>columns = columns df, rows = map fst (filter snd (zip (rows df) bs))\<rparr>"

text \<open>Element-wise comparison of a column with a number. \<^verbatim>\<open>==\<close> is false on a
  missing value and on a string; \<^verbatim>\<open><=\<close> and \<^verbatim>\<open><\<close> are false on a missing value and
  raise \<^verbatim>\<open>TypeError\<close> on a string.\<close>

fun cell_eq :: "cell \<Rightarrow> cell \<Rightarrow> bool" where
  "cell_eq (Num x) (Num y) = (x = y)"
| "cell_eq (Str s) (Str t) = (s = t)"
| "cell_eq _ _ = False"

fun cell_le :: "cell \<Rightarrow> real \<Rightarrow> error + bool" where
  "cell_le (Num x) y = Inr (x \<le> y)"
| "cell_le NaN y = Inr False"
| "cell_le (Str s) y = Inl TypeError"

fun cell_lt :: "cell \<Rightarrow> real \<Rightarrow> error + bool" where
  "cell_lt (Num x) y = Inr (x < y)"
| "cell_lt NaN y = Inr False"
| "cell_lt (Str s) y = Inl TypeError"

fun sequence :: "(error + 'a) list \<Rightarrow> error + 'a list" where
  "sequence [] = Inr []"
| "sequence (x # xs) =
     (case x of Inl e \<Rightarrow> Inl e
      | Inr v \<Rightarrow> (case sequence xs of Inl e \<Rightarrow> Inl e | Inr vs \<Rightarrow> Inr (v # vs)))"

section \<open>Python's \<^verbatim>\<open>int\<close> on a sheet name\<close>

text \<open>
  The time-series assembler calls the builtin \<^verbatim>\<open>int\<close> on each sheet name. The builtin is
  not part of the sources, and what it accepts depends on the interpreter's tables of
  Unicode spaces and digits. It is a parameter of the assembler: a function from the name
  to the integer, \<open>None\<close> standing for the \<^verbatim>\<open>ValueError\<close> it raises. Everything proved
  below about the assembler holds for every such function.
\<close>

type_synonym int_parser = "string \<Rightarrow> int option"

section \<open>The time-series forecaster (\<^verbatim>\<open>ARIMAForecaster\<close>)\<close>

text \<open>
  The object's attributes. \<open>excel_data\<close> is the workbook as
  \<^verbatim>\<open>pd.read_excel(file, sheet_name=None)\<close> returns it: the sheets in order, each under its
  name. An attribute that has not been assigned yet is \<open>None\<close>; reading it raises
  \<^verbatim>\<open>AttributeError\<close>.
\<close>

type_synonym workbook = "(string \<times> frame) list"

text \<open>The six scores that both forecasters store (\<open>self.mse\<close>, \<open>self.rmse\<close>,
  \<open>self.r2\<close>, \<open>self.evs\<close>, \<open>self.mae\<close>, \<open>self.medae\<close>). \<open>r2\<close> is \<open>None\<close>
  where the library returns the float \<^verbatim>\<open>nan\<close>.\<close>

record scores =
  mse :: real
  rmse :: real
  r2 :: "real option"
  evs :: real
  mae :: real
  medae :: real

type_synonym prediction = "cell \<times> real \<times> cell"

record forecaster =
  excel_data :: workbook
  combined_data :: frame
  train_data :: "frame option"
  test_data :: "frame option"
  predictions :: "prediction list option"
  metrics :: "scores option"

text \<open>The list comprehension of \<open>prepare_data\<close>: each sheet with its \<open>year\<close> column set
  to \<^verbatim>\<open>int(sheet_name)\<close>; \<open>py_int\<close> is the builtin.\<close>

fun assign_years :: "int_parser \<Rightarrow> workbook \<Rightarrow> error + frame list" where
  "assign_years py_int [] = Inr []"
| "assign_years py_int ((sheet_name, df) # rest) =
     (case py_int sheet_name of
        None \<Rightarrow> Inl ValueError
      | Some y \<Rightarrow>
          (case assign_years py_int rest of
             Inl e \<Rightarrow> Inl e
           | Inr fs \<Rightarrow> Inr (df_assign ''year'' (Num (of_int y)) df # fs)))"

definition prepare_data :: "int_parser \<Rightarrow> workbook \<Rightarrow> error + frame" where
  "prepare_data py_int wb =
     (case assign_years py_int wb of
        Inl e \<Rightarrow> Inl e
      | Inr data_frames \<Rightarrow> df_concat data_frames)"

definition init :: "int_parser \<Rightarrow> workbook \<Rightarrow> error + forecaster" where
  "init py_int wb =
     (case prepare_data py_int wb of
        Inl e \<Rightarrow> Inl e
      | Inr cd \<Rightarrow> Inr \<lparr>excel_data = wb, combined_data = cd,
                       train_data = None, test_data = None,
                       predictions = None, metrics = None\<rparr>)"

text \<open>\<open>split_data\<close>: two boolean-mask selections on the \<open>year\<close> column.\<close>

definition split_data :: "forecaster \<Rightarrow> int \<Rightarrow> int \<Rightarrow> error + forecaster" where
  "split_data self train_year test_year =
     (case df_col (combined_data self) ''year'' of
        Inl e \<Rightarrow> Inl e
      | Inr ys \<Rightarrow>
          (case sequence (map (\<lambda>y. cell_le y (of_int train_year)) ys) of
             Inl e \<Rightarrow> Inl e
           | Inr train_mask \<Rightarrow>
               Inr (self\<lparr>train_data := Some (df_mask (combined_data self) train_mask),
                         test_data := Some (df_mask (combined_data self)
                                      (map (\<lambda>y. cell_eq y (Num (of_int test_year))) ys))\<rparr>)))"

text \<open>\<^verbatim>\<open>df[df["comune"] == comune]\<close>, the selection that both loops make.\<close>

definition select_comune :: "frame \<Rightarrow> cell \<Rightarrow> error + frame" where
  "select_comune df comune =
     (case df_col df ''comune'' of
        Inl e \<Rightarrow> Inl e
      | Inr cs \<Rightarrow> Inr (df_mask df (map (\<lambda>x. cell_eq x comune) cs)))"

text \<open>\<^verbatim>\<open>df.empty\<close>: no rows or no columns.\<close>

definition df_empty :: "frame \<Rightarrow> bool" where
  "df_empty df = (rows df = [] \<or> columns df = [])"

text \<open>\<^verbatim>\<open>df.iloc[0][c]\<close>: the cell of the first row; \<^verbatim>\<open>IndexError\<close> when the frame has
  no row, \<^verbatim>\<open>KeyError\<close> when it has no such column.\<close>

definition iloc0 :: "frame \<Rightarrow> string \<Rightarrow> error + cell" where
  "iloc0 df c =
     (case rows df of
        [] \<Rightarrow> Inl IndexError
      | r # _ \<Rightarrow> if c \<in> set (columns df) then Inr (cell_at r c) else Inl (KeyError c))"

text \<open>
  \<open>predict_arima\<close>. Resetting the index and putting a yearly date index on the frame
  leave the rows and their order as they are. The search for an ARIMA order, the fit and
  the one-step forecast (\<^verbatim>\<open>pm.auto_arima(...)\<close>, \<^verbatim>\<open>model.predict(n_periods=1)\<close>,
  \<^verbatim>\<open>forecast[0]\<close>) belong to an external library: they are the parameter \<open>auto_arima\<close>,
  from the series of outcomes to a forecast or an exception.
\<close>

type_synonym fitter = "cell list \<Rightarrow> error + real"

definition predict_arima :: "fitter \<Rightarrow> frame \<Rightarrow> error + real" where
  "predict_arima auto_arima city_data =
     (case df_col city_data ''cns deaths'' of
        Inl e \<Rightarrow> Inl e
      | Inr series \<Rightarrow> auto_arima series)"

text \<open>The loop of \<open>train_and_evaluate\<close> over the distinct values of the \<open>comune\<close>
  column, with the list \<open>predictions\<close> it appends to.\<close>

fun entity_loop :: "fitter \<Rightarrow> forecaster \<Rightarrow> cell list \<Rightarrow> prediction list
    \<Rightarrow> error + prediction list" where
  "entity_loop auto_arima self [] preds = Inr preds"
| "entity_loop auto_arima self (comune # rest) preds =
     (case train_data self of
        None \<Rightarrow> Inl AttributeError
      | Some tr \<Rightarrow>
     (case select_comune tr comune of
        Inl e \<Rightarrow> Inl e
      | Inr city_train_data \<Rightarrow>
     (case test_data self of
        None \<Rightarrow> Inl AttributeError
      | Some te \<Rightarrow>
     (case select_comune te comune of
        Inl e \<Rightarrow> Inl e
      | Inr city_test_data \<Rightarrow>
          if \<not> df_empty city_train_data \<and> \<not> df_empty city_test_data then
            (case predict_arima auto_arima city_train_data of
               Inl e \<Rightarrow> Inl e
             | Inr prediction \<Rightarrow>
            (case iloc0 city_test_data ''cns deaths'' of
               Inl e \<Rightarrow> Inl e
             | Inr actual \<Rightarrow>
                 entity_loop auto_arima self rest (preds @ [(comune, prediction, actual)])))
          else entity_loop auto_arima self rest preds))))"

section \<open>The regression scores\<close>

text \<open>
  Modelled from the spec: the scoring functions \<^verbatim>\<open>mean_squared_error\<close>, \<^verbatim>\<open>r2_score\<close>,
  \<^verbatim>\<open>explained_variance_score\<close>, \<^verbatim>\<open>mean_absolute_error\<close> and \<^verbatim>\<open>median_absolute_error\<close>
  are imported from the library \<^verbatim>\<open>sklearn.metrics\<close> and are not part of the sources.
  The spec names them (mean squared error, coefficient of determination, explained
  variance, mean absolute error, median absolute error); the definitions below follow
  the library's documented behaviour on one-dimensional input, over the real numbers:
  every function raises \<^verbatim>\<open>ValueError\<close> on sequences of different lengths, on empty
  sequences and on a value that is not a finite number; \<^verbatim>\<open>r2_score\<close> returns
  \<^verbatim>\<open>nan\<close> on fewer than two samples; a zero denominator in \<^verbatim>\<open>r2_score\<close> or
  \<^verbatim>\<open>explained_variance_score\<close> gives 1 when the numerator is zero too and 0 otherwise.
\<close>

fun to_float :: "cell \<Rightarrow> error + real" where
  "to_float (Num x) = Inr x"
| "to_float (Str s) = Inl ValueError"
| "to_float NaN = Inl ValueError"

definition check_targets :: "cell list \<Rightarrow> real list \<Rightarrow> error + real list" where
  "check_targets y_true y_pred =
     (if length y_true \<noteq> length y_pred \<or> y_true = [] then Inl ValueError
      else sequence (map to_float y_true))"

definition mean :: "real list \<Rightarrow> real" where
  "mean xs = sum_list xs / real (length xs)"

definition median :: "real list \<Rightarrow> real" where
  "median xs =
     (let s = sort xs; n = length s
      in if odd n then s ! (n div 2) else (s ! (n div 2 - 1) + s ! (n div 2)) / 2)"

definition residuals :: "real list \<Rightarrow> real list \<Rightarrow> real list" where
  "residuals ts ps = map (\<lambda>(t, p). t - p) (zip ts ps)"

definition mean_squared_error :: "real list \<Rightarrow> real list \<Rightarrow> real" where
  "mean_squared_error ts ps = mean (map (\<lambda>d. d\<^sup>2) (residuals ts ps))"

definition score_ratio :: "real \<Rightarrow> real \<Rightarrow> real" where
  "score_ratio numerator denominator =
     (if numerator \<noteq> 0 \<and> denominator \<noteq> 0 then 1 - numerator / denominator
      else if numerator \<noteq> 0 then 0
      else 1)"

definition r2_score :: "real list \<Rightarrow> real list \<Rightarrow> real option" where
  "r2_score ts ps =
     (if length ps < 2 then None
      else Some (score_ratio (sum_list (map (\<lambda>d. d\<^sup>2) (residuals ts ps)))
                             (sum_list (map (\<lambda>t. (t - mean ts)\<^sup>2) ts))))"

definition explained_variance_score :: "real list \<Rightarrow> real list \<Rightarrow> real" where
  "explained_variance_score ts ps =
     (let y_diff_avg = mean (residuals ts ps)
      in score_ratio (mean (map (\<lambda>d. (d - y_diff_avg)\<^sup>2) (residuals ts ps)))
                     (mean (map (\<lambda>t. (t - mean ts)\<^sup>2) ts)))"

definition mean_absolute_error :: "real list \<Rightarrow> real list \<Rightarrow> real" where
  "mean_absolute_error ts ps = mean (map abs (residuals ts ps))"

definition median_absolute_error :: "real list \<Rightarrow> real list \<Rightarrow> real" where
  "median_absolute_error ts ps = median (map abs (residuals ts ps))"

text \<open>The six assignments that end \<open>calculate_evaluation_metrics\<close> and make up
  \<open>evaluate\<close>; the first call already raises whatever the later ones would.\<close>

definition compute_scores :: "cell list \<Rightarrow> real list \<Rightarrow> error + scores" where
  "compute_scores y_true y_pred =
     (case check_targets y_true y_pred of
        Inl e \<Rightarrow> Inl e
      | Inr ts \<Rightarrow>
          Inr \<lparr>mse = mean_squared_error ts y_pred,
               rmse = sqrt (mean_squared_error ts y_pred),
               r2 = r2_score ts y_pred,
               evs = explained_variance_score ts y_pred,
               mae = mean_absolute_error ts y_pred,
               medae = median_absolute_error ts y_pred\<rparr>)"

section \<open>The time-series forecaster, continued\<close>

definition calculate_evaluation_metrics :: "prediction list \<Rightarrow> error + scores" where
  "calculate_evaluation_metrics preds =
     (let y_true = map (\<lambda>p. snd (snd p)) preds;
          y_pred = map (\<lambda>p. fst (snd p)) preds
      in compute_scores y_true y_pred)"

text \<open>\<open>train_and_evaluate\<close>. The elapsed time it also stores is wall-clock time and is
  left out.\<close>

definition train_and_evaluate :: "fitter \<Rightarrow> forecaster \<Rightarrow> error + forecaster" where
  "train_and_evaluate auto_arima self =
     (case df_col (combined_data self) ''comune'' of
        Inl e \<Rightarrow> Inl e
      | Inr cs \<Rightarrow>
     (case entity_loop auto_arima self (unique cs) [] of
        Inl e \<Rightarrow> Inl e
      | Inr preds \<Rightarrow>
     (case calculate_evaluation_metrics preds of
        Inl e \<Rightarrow> Inl e
      | Inr sc \<Rightarrow> Inr (self\<lparr>predictions := Some preds, metrics := Some sc\<rparr>))))"

text \<open>\<open>predict_upcoming_year\<close>. The result is the list handed to \<open>save_predictions\<close>,
  which writes it to a file, one line per pair.\<close>

fun upcoming_loop :: "fitter \<Rightarrow> forecaster \<Rightarrow> cell list \<Rightarrow> (cell \<times> real) list
    \<Rightarrow> error + (cell \<times> real) list" where
  "upcoming_loop auto_arima self [] preds = Inr preds"
| "upcoming_loop auto_arima self (comune # rest) preds =
     (case select_comune (combined_data self) comune of
        Inl e \<Rightarrow> Inl e
      | Inr city_train_data \<Rightarrow>
          if \<not> df_empty city_train_data then
            (case predict_arima auto_arima city_train_data of
               Inl e \<Rightarrow> Inl e
             | Inr prediction \<Rightarrow>
                 upcoming_loop auto_arima self rest (preds @ [(comune, prediction)]))
          else upcoming_loop auto_arima self rest preds)"

definition predict_upcoming_year :: "fitter \<Rightarrow> forecaster \<Rightarrow> int
    \<Rightarrow> error + (cell \<times> real) list" where
  "predict_upcoming_year auto_arima self year =
     (case df_col (combined_data self) ''year'' of
        Inl e \<Rightarrow> Inl e
      | Inr ys \<Rightarrow>
          let upcoming_year_data =
                df_mask (combined_data self) (map (\<lambda>y. cell_eq y (Num (of_int year))) ys)
          in (case df_col (combined_data self) ''comune'' of
                Inl e \<Rightarrow> Inl e
              | Inr cs \<Rightarrow> upcoming_loop auto_arima self (unique cs) []))"

section \<open>The tabular forecaster (\<^verbatim>\<open>XGBoostForecaster\<close>)\<close>

text \<open>\<^verbatim>\<open>df[c] = values\<close>, one value per row, and \<^verbatim>\<open>df[[c1, ..., cn]]\<close>, which raises
  \<^verbatim>\<open>KeyError\<close> when the frame lacks one of the columns.\<close>

definition df_set_col :: "string \<Rightarrow> cell list \<Rightarrow> frame \<Rightarrow> frame" where
  "df_set_col c vs df =
     \<lparr>columns = (if c \<in> set (columns df) then columns df else columns df @ [c]),
      rows = map (\<lambda>(r, v). AList.update c v r) (zip (rows df) vs)\<rparr>"

definition df_select :: "string list \<Rightarrow> frame \<Rightarrow> error + frame" where
  "df_select cols df =
     (case filter (\<lambda>c. c \<notin> set (columns df)) cols of
        [] \<Rightarrow> Inr \<lparr>columns = cols,
                   rows = map (\<lambda>r. map (\<lambda>c. (c, cell_at r c)) cols) (rows df)\<rparr>
      | c # _ \<Rightarrow> Inl (KeyError c))"

text \<open>
  Modelled from the spec: \<^verbatim>\<open>LabelEncoder\<close> is imported from the library
  \<^verbatim>\<open>sklearn.preprocessing\<close> and is not part of the sources. The spec describes it as a
  label encoding to a dense integer range, learned once over the full vocabulary; the
  definitions follow the library's documented behaviour: \<^verbatim>\<open>fit\<close> stores the distinct
  values in sorted order (the missing value last), and raises \<^verbatim>\<open>TypeError\<close> when strings
  and numbers are mixed; \<^verbatim>\<open>transform\<close> replaces each value by its position among the
  stored classes and raises \<^verbatim>\<open>ValueError\<close> on a value that is not among them.
\<close>

definition le_fit :: "cell list \<Rightarrow> error + cell list" where
  "le_fit ys =
     (let strs = concat (map (\<lambda>y. case y of Str s \<Rightarrow> [s] | _ \<Rightarrow> []) (unique ys));
          nums = concat (map (\<lambda>y. case y of Num x \<Rightarrow> [x] | _ \<Rightarrow> []) (unique ys))
      in if strs \<noteq> [] \<and> nums \<noteq> [] then Inl TypeError
         else Inr (map Str (sort strs) @ map Num (sort nums) @
                   (if NaN \<in> set ys then [NaN] else [])))"

fun index_of :: "'a list \<Rightarrow> 'a \<Rightarrow> nat option" where
  "index_of [] y = None"
| "index_of (x # xs) y = (if x = y then Some 0 else map_option Suc (index_of xs y))"

definition le_transform :: "cell list \<Rightarrow> cell list \<Rightarrow> error + cell list" where
  "le_transform classes ys =
     sequence (map (\<lambda>y. case index_of classes y of
                           None \<Rightarrow> Inl ValueError
                         | Some k \<Rightarrow> Inr (Num (real k))) ys)"

definition fit_transform :: "cell list \<Rightarrow> error + cell list \<times> cell list" where
  "fit_transform ys =
     (case le_fit ys of
        Inl e \<Rightarrow> Inl e
      | Inr classes \<Rightarrow>
          (case le_transform classes ys of
             Inl e \<Rightarrow> Inl e
           | Inr codes \<Rightarrow> Inr (classes, codes)))"

text \<open>The object's attributes; \<open>le_classes\<close> is \<^verbatim>\<open>self.le.classes_\<close>. The attributes
  that \<open>train\<close> sets (the fitted regressor, the time spent) are left out: \<open>train\<close> and
  \<open>predict\<close> only call the external regressor, whose predictions are \<open>y_pred\<close>.\<close>

record xgb_forecaster =
  sheets_dict :: workbook
  data :: frame
  le_classes :: "cell list"
  xgb_train_data :: "frame option"
  xgb_test_data :: "frame option"
  X_train :: "frame option"
  y_train :: "cell list option"
  X_test :: "frame option"
  y_test :: "cell list option"
  y_pred :: "real list option"
  xgb_metrics :: "scores option"

definition xgb_prepare_data :: "workbook \<Rightarrow> error + frame" where
  "xgb_prepare_data wb =
     (case df_concat (map snd wb) of
        Inl e \<Rightarrow> Inl e
      | Inr d \<Rightarrow>
          df_select [''year'', ''comune'', ''PM2.5'', ''PM10'', ''cns deaths'']
            (df_set_col ''year''
               (map (\<lambda>i. Num (real (i div 107))) [0..<length (rows d)]) d))"

definition xgb_init :: "workbook \<Rightarrow> error + xgb_forecaster" where
  "xgb_init wb =
     (case xgb_prepare_data wb of
        Inl e \<Rightarrow> Inl e
      | Inr d \<Rightarrow>
     (case df_col d ''comune'' of
        Inl e \<Rightarrow> Inl e
      | Inr cs \<Rightarrow>
     (case fit_transform cs of
        Inl e \<Rightarrow> Inl e
      | Inr (classes, codes) \<Rightarrow>
          Inr \<lparr>sheets_dict = wb, data = df_set_col ''comune'' codes d,
               le_classes = classes,
               xgb_train_data = None, xgb_test_data = None,
               X_train = None, y_train = None, X_test = None, y_test = None,
               y_pred = None, xgb_metrics = None\<rparr>)))"

definition xgb_split_data :: "xgb_forecaster \<Rightarrow> error + xgb_forecaster" where
  "xgb_split_data self =
     (case df_col (data self) ''year'' of
        Inl e \<Rightarrow> Inl e
      | Inr ys \<Rightarrow>
     (case sequence (map (\<lambda>y. cell_lt y 10) ys) of
        Inl e \<Rightarrow> Inl e
      | Inr train_mask \<Rightarrow>
          let tr = df_mask (data self) train_mask;
              te = df_mask (data self) (map (\<lambda>y. cell_eq y (Num 10)) ys)
          in
     (case df_select [''year'', ''comune'', ''PM2.5'', ''PM10''] tr of
        Inl e \<Rightarrow> Inl e
      | Inr xtr \<Rightarrow>
     (case df_col tr ''cns deaths'' of
        Inl e \<Rightarrow> Inl e
      | Inr ytr \<Rightarrow>
     (case df_select [''year'', ''comune'', ''PM2.5'', ''PM10''] te of
        Inl e \<Rightarrow> Inl e
      | Inr xte \<Rightarrow>
     (case df_col te ''cns deaths'' of
        Inl e \<Rightarrow> Inl e
      | Inr yte \<Rightarrow>
          Inr (self\<lparr>xgb_train_data := Some tr, xgb_test_data := Some te,
                    X_train := Some xtr, y_train := Some ytr,
                    X_test := Some xte, y_test := Some yte\<rparr>)))))))"

definition evaluate :: "xgb_forecaster \<Rightarrow> error + xgb_forecaster" where
  "evaluate self =
     (case y_test self of
        None \<Rightarrow> Inl AttributeError
      | Some yt \<Rightarrow>
     (case y_pred self of
        None \<Rightarrow> Inl AttributeError
      | Some yp \<Rightarrow>
     (case compute_scores yt yp of
        Inl e \<Rightarrow> Inl e
      | Inr sc \<Rightarrow> Inr (self\<lparr>xgb_metrics := Some sc\<rparr>))))"

section \<open>Notions used in the statements\<close>

text \<open>The year field of a record, compared with a year given as an integer.\<close>

definition year_le :: "row \<Rightarrow> int \<Rightarrow> bool" where
  "year_le r n = (case cell_at r ''year'' of Num y \<Rightarrow> y \<le> of_int n | _ \<Rightarrow> False)"

definition year_eq :: "row \<Rightarrow> int \<Rightarrow> bool" where
  "year_eq r n = (cell_at r ''year'' = Num (of_int n))"

text \<open>
  A parser for the examples. On a non-empty string of at most 4300 of the digits 0 to 9 it
  returns the number written, as the builtin does; on any other string it returns
  \<open>None\<close>, whatever the builtin does there. The examples call it on the sheet names
  2018 and 2019 only.
\<close>

definition is_digit :: "char \<Rightarrow> bool" where
  "is_digit c = (48 \<le> (of_char c :: nat) \<and> (of_char c :: nat) \<le> 57)"

definition digit_val :: "char \<Rightarrow> nat" where
  "digit_val c = of_char c - 48"

definition decimal_int :: int_parser where
  "decimal_int s =
     (if s \<noteq> [] \<and> list_all is_digit s \<and> length s \<le> 4300
      then Some (int (foldl (\<lambda>n c. 10 * n + digit_val c) 0 s))
      else None)"

text \<open>A small workbook: two municipalities in 2018, one of them again in 2019.\<close>

definition example_wb :: workbook where
  "example_wb =
     [(''2018'', \<lparr>columns = [''comune'', ''cns deaths''],
                  rows = [[(''comune'', Str ''A''), (''cns deaths'', Num 3)],
                          [(''comune'', Str ''B''), (''cns deaths'', Num 4)]]\<rparr>),
      (''2019'', \<lparr>columns = [''comune'', ''cns deaths''],
                  rows = [[(''comune'', Str ''A''), (''cns deaths'', Num 5)]]\<rparr>)]"

definition example_combined :: frame where
  "example_combined =
     \<lparr>columns = [''comune'', ''cns deaths'', ''year''],
      rows = [[(''comune'', Str ''A''), (''cns deaths'', Num 3), (''year'', Num 2018)],
              [(''comune'', Str ''B''), (''cns deaths'', Num 4), (''year'', Num 2018)],
              [(''comune'', Str ''A''), (''cns deaths'', Num 5), (''year'', Num 2019)]]\<rparr>"

definition example_self :: forecaster where
  "example_self =
     \<lparr>excel_data = example_wb, combined_data = example_combined,
      train_data = None, test_data = None, predictions = None, metrics = None\<rparr>"

definition example_split :: forecaster where
  "example_split =
     example_self\<lparr>
       train_data := Some \<lparr>columns = [''comune'', ''cns deaths'', ''year''],
         rows = [[(''comune'', Str ''A''), (''cns deaths'', Num 3), (''year'', Num 2018)],
                 [(''comune'', Str ''B''), (''cns deaths'', Num 4), (''year'', Num 2018)]]\<rparr>,
       test_data := Some \<lparr>columns = [''comune'', ''cns deaths'', ''year''],
         rows = [[(''comune'', Str ''A''), (''cns deaths'', Num 5), (''year'', Num 2019)]]\<rparr>\<rparr>"

text \<open>The identity of a record, and the identities in a part of the split.\<close>

definition record_key :: "row \<Rightarrow> cell \<times> cell" where
  "record_key r = (cell_at r ''comune'', cell_at r ''year'')"

definition frame_keys :: "frame option \<Rightarrow> (cell \<times> cell) list" where
  "frame_keys f = (case f of None \<Rightarrow> [] | Some df \<Rightarrow> map record_key (rows df))"

text \<open>A tabular forecaster whose data holds one record of year index 9 and one of year
  index 10, and the same object after \<open>split_data\<close>.\<close>

definition example_xgb :: xgb_forecaster where
  "example_xgb =
     \<lparr>sheets_dict = [],
      data = \<lparr>columns = [''year'', ''comune'', ''PM2.5'', ''PM10'', ''cns deaths''],
              rows = [[(''year'', Num 9), (''comune'', Num 0), (''PM2.5'', Num 11),
                       (''PM10'', Num 20), (''cns deaths'', Num 3)],
                      [(''year'', Num 10), (''comune'', Num 0), (''PM2.5'', Num 12),
                       (''PM10'', Num 21), (''cns deaths'', Num 4)]]\<rparr>,
      le_classes = [Str ''A''],
      xgb_train_data = None, xgb_test_data = None,
      X_train = None, y_train = None, X_test = None, y_test = None,
      y_pred = None, xgb_metrics = None\<rparr>"

definition example_xgb_split :: xgb_forecaster where
  "example_xgb_split =
     example_xgb\<lparr>
       xgb_train_data := Some \<lparr>columns = [''year'', ''comune'', ''PM2.5'', ''PM10'', ''cns deaths''],
          rows = [[(''year'', Num 9), (''comune'', Num 0), (''PM2.5'', Num 11),
                   (''PM10'', Num 20), (''cns deaths'', Num 3)]]\<rparr>,
       xgb_test_data := Some \<lparr>columns = [''year'', ''comune'', ''PM2.5'', ''PM10'', ''cns deaths''],
          rows = [[(''year'', Num 10), (''comune'', Num 0), (''PM2.5'', Num 12),
                   (''PM10'', Num 21), (''cns deaths'', Num 4)]]\<rparr>,
       X_train := Some \<lparr>columns = [''year'', ''comune'', ''PM2.5'', ''PM10''],
          rows = [[(''year'', Num 9), (''comune'', Num 0), (''PM2.5'', Num 11),
                   (''PM10'', Num 20)]]\<rparr>,
       y_train := Some [Num 3],
       X_test := Some \<lparr>columns = [''year'', ''comune'', ''PM2.5'', ''PM10''],
          rows = [[(''year'', Num 10), (''comune'', Num 0), (''PM2.5'', Num 12),
                   (''PM10'', Num 21)]]\<rparr>,
       y_test := Some [Num 4]\<rparr>"

text \<open>The year column of a frame, and workbooks for the tabular forecaster: one with two
  sheets of two rows and one row, one whose second sheet has no \<open>comune\<close> column, one whose
  single sheet has 107 rows, one without any \<open>comune\<close> column.\<close>

definition year_column :: "frame \<Rightarrow> cell list" where
  "year_column df = map (\<lambda>r. cell_at r ''year'') (rows df)"

definition example_tab_wb :: workbook where
  "example_tab_wb =
     [(''2018'', \<lparr>columns = [''comune'', ''PM2.5'', ''PM10'', ''cns deaths''],
                  rows = [[(''comune'', Str ''B''), (''PM2.5'', Num 11), (''PM10'', Num 20),
                           (''cns deaths'', Num 3)],
                          [(''comune'', Str ''A''), (''PM2.5'', Num 12), (''PM10'', Num 21),
                           (''cns deaths'', Num 4)]]\<rparr>),
      (''2019'', \<lparr>columns = [''comune'', ''PM2.5'', ''PM10'', ''cns deaths''],
                  rows = [[(''comune'', Str ''A''), (''PM2.5'', Num 13), (''PM10'', Num 22),
                           (''cns deaths'', Num 5)]]\<rparr>)]"

definition example_gap_wb :: workbook where
  "example_gap_wb =
     [(''2018'', \<lparr>columns = [''comune'', ''PM2.5'', ''PM10'', ''cns deaths''],
                  rows = [[(''comune'', Str ''A''), (''PM2.5'', Num 11), (''PM10'', Num 20),
                           (''cns deaths'', Num 3)]]\<rparr>),
      (''2019'', \<lparr>columns = [''PM2.5'', ''PM10'', ''cns deaths''],
                  rows = [[(''PM2.5'', Num 13), (''PM10'', Num 22), (''cns deaths'', Num 5)]]\<rparr>)]"

definition example_full_wb :: workbook where
  "example_full_wb =
     [(''2009'', \<lparr>columns = [''comune'', ''PM2.5'', ''PM10'', ''cns deaths''],
                  rows = replicate 107 [(''comune'', Str ''A''), (''PM2.5'', Num 11),
                           (''PM10'', Num 20), (''cns deaths'', Num 3)]\<rparr>)]"

definition example_nocol_wb :: workbook where
  "example_nocol_wb =
     [(''2018'', \<lparr>columns = [''PM2.5'', ''PM10'', ''cns deaths''],
                  rows = [[(''PM2.5'', Num 11), (''PM10'', Num 20), (''cns deaths'', Num 3)]]\<rparr>)]"

text \<open>The slice of a part of the split that belongs to a municipality, the municipalities
  for which both slices have a record, and the series of outcomes handed to the fit.\<close>

definition city_rows :: "frame option \<Rightarrow> cell \<Rightarrow> row list" where
  "city_rows f comune =
     (case f of None \<Rightarrow> []
      | Some df \<Rightarrow> filter (\<lambda>r. cell_eq (cell_at r ''comune'') comune) (rows df))"

definition eligible :: "forecaster \<Rightarrow> cell \<Rightarrow> bool" where
  "eligible self comune =
     (city_rows (train_data self) comune \<noteq> [] \<and> city_rows (test_data self) comune \<noteq> [])"

definition train_series :: "forecaster \<Rightarrow> cell \<Rightarrow> cell list" where
  "train_series self comune =
     map (\<lambda>r. cell_at r ''cns deaths'') (city_rows (train_data self) comune)"

text \<open>Two fits: one that always forecasts 5, one that raises on the series \<open>[3]\<close>; and a
  workbook in which both municipalities have a record in both years, with the object
  after the split at 2018 and 2019.\<close>

definition constant_fit :: fitter where
  "constant_fit series = Inr 5"




text \<open>The municipalities with a record anywhere in the combined dataset, and the series of
  all their outcomes.\<close>

definition has_record :: "forecaster \<Rightarrow> cell \<Rightarrow> bool" where
  "has_record self comune = (city_rows (Some (combined_data self)) comune \<noteq> [])"

definition full_series :: "forecaster \<Rightarrow> cell \<Rightarrow> cell list" where
  "full_series self comune =
     map (\<lambda>r. cell_at r ''cns deaths'') (city_rows (Some (combined_data self)) comune)"

text \<open>The scores of a prediction that equals the truth on \<open>n\<close> samples, and a tabular
  forecaster with two test outcomes predicted exactly.\<close>

definition perfect_scores :: "nat \<Rightarrow> scores" where
  "perfect_scores n =
     \<lparr>mse = 0, rmse = 0, r2 = (if n < 2 then None else Some 1), evs = 1, mae = 0, medae = 0\<rparr>"

definition example_xgb_scored :: xgb_forecaster where
  "example_xgb_scored = example_xgb\<lparr>y_test := Some [Num 3, Num 4], y_pred := Some [3, 4]\<rparr>"



text \<open>The municipality column of a frame, the rows of a part of the split, and the
  tabular forecaster built from the workbook with two sheets.\<close>

definition comune_column :: "frame \<Rightarrow> cell list" where
  "comune_column df = map (\<lambda>r. cell_at r ''comune'') (rows df)"

definition rows_of :: "frame option \<Rightarrow> row list" where
  "rows_of f = (case f of None \<Rightarrow> [] | Some df \<Rightarrow> rows df)"

definition example_tab_self :: xgb_forecaster where
  "example_tab_self =
     \<lparr>sheets_dict = example_tab_wb,
      data = \<lparr>columns = [''year'', ''comune'', ''PM2.5'', ''PM10'', ''cns deaths''],
              rows = [[(''year'', Num 0), (''comune'', Num 1), (''PM2.5'', Num 11),
                       (''PM10'', Num 20), (''cns deaths'', Num 3)],
                      [(''year'', Num 0), (''comune'', Num 0), (''PM2.5'', Num 12),
                       (''PM10'', Num 21), (''cns deaths'', Num 4)],
                      [(''year'', Num 0), (''comune'', Num 0), (''PM2.5'', Num 13),
                       (''PM10'', Num 22), (''cns deaths'', Num 5)]]\<rparr>,
      le_classes = [Str ''A'', Str ''B''],
      xgb_train_data = None, xgb_test_data = None,
      X_train = None, y_train = None, X_test = None, y_test = None,
      y_pred = None, xgb_metrics = None\<rparr>"

text \<open>The outcome that the loop pairs with a municipality's forecast, the first of its test
  slice; and the object after a split whose test year, 2050, has no record.\<close>

definition first_test_outcome :: "forecaster \<Rightarrow> cell \<Rightarrow> cell" where
  "first_test_outcome self comune =
     (case city_rows (test_data self) comune of
        [] \<Rightarrow> NaN
      | r # _ \<Rightarrow> cell_at r ''cns deaths'')"

definition example_split_far :: forecaster where
  "example_split_far =
     example_self\<lparr>
       train_data := Some \<lparr>columns = [''comune'', ''cns deaths'', ''year''],
         rows = [[(''comune'', Str ''A''), (''cns deaths'', Num 3), (''year'', Num 2018)],
                 [(''comune'', Str ''B''), (''cns deaths'', Num 4), (''year'', Num 2018)]]\<rparr>,
       test_data := Some \<lparr>columns = [''comune'', ''cns deaths'', ''year''], rows = []\<rparr>\<rparr>"

section \<open>Facts about tables\<close>

lemma set_uniq_acc: "set (uniq_acc seen xs) = set xs - set seen"
  by (induction seen xs rule: uniq_acc.induct) auto

lemma distinct_uniq_acc: "distinct (uniq_acc seen xs)"
  by (induction seen xs rule: uniq_acc.induct) (auto simp: set_uniq_acc)

lemma set_unique [simp]: "set (unique xs) = set xs"
  by (simp add: unique_def set_uniq_acc)

lemma distinct_unique [simp]: "distinct (unique xs)"
  by (simp add: unique_def distinct_uniq_acc)

lemma mask_filter: "map fst (filter snd (zip xs (map p xs))) = filter p xs"
  by (induction xs) auto

lemma columns_df_mask [simp]: "columns (df_mask df bs) = columns df"
  by (simp add: df_mask_def)

lemma sequence_all_Inr:
  "(\<And>x. x \<in> set xs \<Longrightarrow> f x = Inr (g x)) \<Longrightarrow> sequence (map f xs) = Inr (map g xs)"
  by (induction xs) auto

lemma cell_at_update [simp]:
  "cell_at (AList.update k v r) c = (if c = k then v else cell_at r c)"
  by (simp add: cell_at_def update_conv')

lemma map_of_tab:
  "map_of (map (\<lambda>c. (c, f c)) cols) c = (if c \<in> set cols then Some (f c) else None)"
  by (induction cols) auto

lemma cell_at_tab [simp]:
  "cell_at (map (\<lambda>c. (c, cell_at r c)) cols) c = (if c \<in> set cols then cell_at r c else NaN)"
  by (simp add: cell_at_def map_of_tab)

section \<open>Facts about the time-series assembler\<close>

lemma assign_years_Inr:
  "assign_years py_int wb = Inr fs \<Longrightarrow>
     fs = map (\<lambda>(n, df). df_assign ''year'' (Num (of_int (the (py_int n)))) df) wb
     \<and> (\<forall>(n, df) \<in> set wb. py_int n \<noteq> None)"
  by (induction wb arbitrary: fs) (auto split: option.splits sum.splits)

lemma assign_years_total:
  "(\<forall>(n, df) \<in> set wb. py_int n \<noteq> None) \<Longrightarrow> \<exists>fs. assign_years py_int wb = Inr fs"
  by (induction wb) (auto split: option.splits sum.splits)

lemma year_col_assign:
  "map (\<lambda>r. cell_at r ''year'') (rows (df_assign ''year'' v df)) = replicate (length (rows df)) v"
  by (simp add: df_assign_def map_replicate_const comp_def)

lemma year_in_assign: "''year'' \<in> set (columns (df_assign ''year'' v df))"
  by (simp add: df_assign_def)

lemma prepare_data_Inr:
  assumes "prepare_data py_int wb = Inr cd"
  shows "''year'' \<in> set (columns cd)"
    and "map (\<lambda>r. cell_at r ''year'') (rows cd) =
         concat (map (\<lambda>(n, df). replicate (length (rows df)) (Num (of_int (the (py_int n))))) wb)"
    and "wb \<noteq> []" and "\<forall>(n, df) \<in> set wb. py_int n \<noteq> None"
proof -
  from assms obtain fs where fs: "assign_years py_int wb = Inr fs" and c: "df_concat fs = Inr cd"
    by (auto simp: prepare_data_def split: sum.splits)
  from assign_years_Inr [OF fs]
  have fs_eq: "fs = map (\<lambda>(n, df). df_assign ''year'' (Num (of_int (the (py_int n)))) df) wb"
    and ok: "\<forall>(n, df) \<in> set wb. py_int n \<noteq> None" by auto
  from c have ne: "fs \<noteq> []" and cd: "cd = \<lparr>columns = unique (concat (map columns fs)),
      rows = map (\<lambda>r. map (\<lambda>c. (c, cell_at r c)) (unique (concat (map columns fs))))
               (concat (map rows fs))\<rparr>"
    by (auto simp: df_concat_def Let_def split: if_splits)
  from ne fs_eq show "wb \<noteq> []" by auto
  show "\<forall>(n, df) \<in> set wb. py_int n \<noteq> None" by (rule ok)
  from ne obtain f where "f \<in> set fs" by (cases fs) auto
  with fs_eq have "''year'' \<in> set (columns f)" by (auto simp: year_in_assign)
  with \<open>f \<in> set fs\<close> show y: "''year'' \<in> set (columns cd)" by (auto simp: cd)
  have "map (\<lambda>r. cell_at r ''year'') (rows cd)
      = map (\<lambda>r. cell_at r ''year'') (concat (map rows fs))"
    using y by (simp add: cd comp_def)
  also have "\<dots> = concat (map (\<lambda>f. map (\<lambda>r. cell_at r ''year'') (rows f)) fs)"
    by (simp add: map_concat comp_def)
  also have "\<dots> = concat (map (\<lambda>(n, df).
      replicate (length (rows df)) (Num (of_int (the (py_int n))))) wb)"
    by (simp add: fs_eq comp_def year_col_assign split_def)
  finally show "map (\<lambda>r. cell_at r ''year'') (rows cd) =
      concat (map (\<lambda>(n, df). replicate (length (rows df)) (Num (of_int (the (py_int n))))) wb)" .
qed

lemma prepare_data_year_num:
  assumes "prepare_data py_int wb = Inr cd" "r \<in> set (rows cd)"
  shows "\<exists>y::int. cell_at r ''year'' = Num (of_int y)"
proof -
  from assms(2) have "cell_at r ''year'' \<in> set (map (\<lambda>r. cell_at r ''year'') (rows cd))"
    by auto
  then show ?thesis unfolding prepare_data_Inr(2) [OF assms(1)] by auto
qed

lemma init_prepare: "init py_int wb = Inr self \<Longrightarrow> prepare_data py_int wb = Inr (combined_data self)"
  by (auto simp: init_def split: sum.splits)

lemma decimal_int_2018: "decimal_int ''2018'' = Some 2018"
  by (simp add: decimal_int_def is_digit_def digit_val_def)

lemma decimal_int_2019: "decimal_int ''2019'' = Some 2019"
  by (simp add: decimal_int_def is_digit_def digit_val_def)

lemma example_prepare: "prepare_data decimal_int example_wb = Inr example_combined"
  by (simp add: prepare_data_def example_wb_def decimal_int_2018 decimal_int_2019 df_assign_def
      df_concat_def unique_def cell_at_def example_combined_def)

lemma example_init: "init decimal_int example_wb = Inr example_self"
  by (simp add: init_def example_prepare example_self_def)

text \<open>The split of a dataset that the assembler has produced always succeeds, and its
  two parts are the selections by year.\<close>

lemma split_data_init:
  assumes "init py_int wb = Inr self"
  shows "split_data self train_year test_year =
      Inr (self\<lparr>train_data := Some (df_mask (combined_data self)
                   (map (\<lambda>r. year_le r train_year) (rows (combined_data self)))),
                test_data := Some (df_mask (combined_data self)
                   (map (\<lambda>r. year_eq r test_year) (rows (combined_data self))))\<rparr>)"
proof -
  let ?cd = "combined_data self"
  have pd: "prepare_data py_int wb = Inr ?cd" by (rule init_prepare [OF assms])
  have col: "df_col ?cd ''year'' = Inr (map (\<lambda>r. cell_at r ''year'') (rows ?cd))"
    using prepare_data_Inr(1) [OF pd] by (simp add: df_col_def)
  have le: "\<And>r. r \<in> set (rows ?cd) \<Longrightarrow>
      cell_le (cell_at r ''year'') (of_int train_year) = Inr (year_le r train_year)"
  proof -
    fix r assume "r \<in> set (rows ?cd)"
    then obtain y :: int where "cell_at r ''year'' = Num (of_int y)"
      using prepare_data_year_num [OF pd] by blast
    then show "cell_le (cell_at r ''year'') (of_int train_year) = Inr (year_le r train_year)"
      by (simp add: year_le_def)
  qed
  have seq: "sequence (map (\<lambda>y. cell_le y (of_int train_year))
        (map (\<lambda>r. cell_at r ''year'') (rows ?cd)))
      = Inr (map (\<lambda>r. year_le r train_year) (rows ?cd))"
    unfolding map_map comp_def by (rule sequence_all_Inr) (rule le)
  have m2: "map (\<lambda>y. cell_eq y (Num (of_int test_year))) (map (\<lambda>r. cell_at r ''year'') (rows ?cd))
      = map (\<lambda>r. year_eq r test_year) (rows ?cd)"
  proof -
    have "\<And>r. r \<in> set (rows ?cd) \<Longrightarrow>
        cell_eq (cell_at r ''year'') (Num (of_int test_year)) = year_eq r test_year"
    proof -
      fix r assume "r \<in> set (rows ?cd)"
      then obtain y :: int where "cell_at r ''year'' = Num (of_int y)"
        using prepare_data_year_num [OF pd] by blast
      then show "cell_eq (cell_at r ''year'') (Num (of_int test_year)) = year_eq r test_year"
        by (simp add: year_eq_def)
    qed
    then show ?thesis by simp
  qed
  show ?thesis
    by (simp only: split_data_def col seq m2 sum.case)
qed

section \<open>The time-series split selects by year\<close>

text \<open>
  Claim C4. For every dataset that the assembler produces and every pair of years, the
  time-series split succeeds; its training set holds exactly the records whose year is at
  most the cutoff year and its test set exactly the records whose year is the test year,
  each in the order and with the multiplicity of the combined dataset, over the same
  columns. Nothing else of the object changes.
\<close>

theorem split_data_exact:
  assumes "init py_int wb = Inr self"
  shows "\<exists>tr te. split_data self train_year test_year =
             Inr (self\<lparr>train_data := Some tr, test_data := Some te\<rparr>)
           \<and> columns tr = columns (combined_data self)
           \<and> columns te = columns (combined_data self)
           \<and> rows tr = filter (\<lambda>r. year_le r train_year) (rows (combined_data self))
           \<and> rows te = filter (\<lambda>r. year_eq r test_year) (rows (combined_data self))"
proof -
  let ?cd = "combined_data self"
  have "rows (df_mask ?cd (map (\<lambda>r. year_le r train_year) (rows ?cd)))
      = filter (\<lambda>r. year_le r train_year) (rows ?cd)"
    by (simp add: df_mask_def mask_filter)
  moreover have "rows (df_mask ?cd (map (\<lambda>r. year_eq r test_year) (rows ?cd)))
      = filter (\<lambda>r. year_eq r test_year) (rows ?cd)"
    by (simp add: df_mask_def mask_filter)
  ultimately show ?thesis
    using split_data_init [OF assms, of train_year test_year]
    by (intro exI conjI) (assumption, simp_all)
qed

theorem split_data_exact_witness:
  "init decimal_int example_wb = Inr example_self \<and>
   (\<exists>tr te. split_data example_self 2018 2019 =
        Inr (example_self\<lparr>train_data := Some tr, test_data := Some te\<rparr>)
      \<and> columns tr = [''comune'', ''cns deaths'', ''year'']
      \<and> columns te = [''comune'', ''cns deaths'', ''year'']
      \<and> rows tr = [[(''comune'', Str ''A''), (''cns deaths'', Num 3), (''year'', Num 2018)],
                   [(''comune'', Str ''B''), (''cns deaths'', Num 4), (''year'', Num 2018)]]
      \<and> rows te = [[(''comune'', Str ''A''), (''cns deaths'', Num 5), (''year'', Num 2019)]])"
  using split_data_exact [OF example_init, of 2018 2019]
  by (simp add: example_init example_self_def example_combined_def year_le_def year_eq_def
      cell_at_def)

section \<open>The two parts of a split and the identities they share\<close>

lemma sequence_bools:
  "sequence (map f xs) = Inr bs \<Longrightarrow> bs = map (\<lambda>x. f x = Inr True) xs"
  by (induction xs arbitrary: bs) (auto split: sum.splits)

lemma cell_le_True: "cell_le x c = Inr True \<Longrightarrow> \<exists>y. x = Num y \<and> y \<le> c"
  by (cases x) auto

lemma cell_lt_True: "cell_lt x c = Inr True \<Longrightarrow> \<exists>y. x = Num y \<and> y < c"
  by (cases x) auto

lemma cell_eq_Num: "cell_eq x (Num t) \<Longrightarrow> x = Num t"
  by (cases x) auto

lemma rows_mask_seq:
  assumes "sequence (map h (rows df)) = Inr bs"
  shows "rows (df_mask df bs) = filter (\<lambda>r. h r = Inr True) (rows df)"
proof -
  have "bs = map (\<lambda>r. h r = Inr True) (rows df)"
    using sequence_bools [OF assms] .
  then show ?thesis by (simp add: df_mask_def mask_filter)
qed

lemma rows_mask_map:
  "rows (df_mask df (map p (rows df))) = filter p (rows df)"
  by (simp add: df_mask_def mask_filter)

lemma split_data_Inr:
  assumes "split_data self c t = Inr s"
  shows "\<exists>tr te. train_data s = Some tr \<and> test_data s = Some te
      \<and> rows tr = filter (\<lambda>r. cell_le (cell_at r ''year'') (of_int c) = Inr True)
                    (rows (combined_data self))
      \<and> rows te = filter (\<lambda>r. cell_eq (cell_at r ''year'') (Num (of_int t)))
                    (rows (combined_data self))"
  using assms
  by (auto simp: split_data_def df_col_def rows_mask_seq rows_mask_map comp_def
      split: sum.splits if_splits)

lemma xgb_split_data_Inr:
  assumes "xgb_split_data self = Inr s"
  shows "\<exists>tr te. xgb_train_data s = Some tr \<and> xgb_test_data s = Some te
      \<and> rows tr = filter (\<lambda>r. cell_lt (cell_at r ''year'') 10 = Inr True) (rows (data self))
      \<and> rows te = filter (\<lambda>r. cell_eq (cell_at r ''year'') (Num 10)) (rows (data self))"
  using assms
  by (auto simp: xgb_split_data_def df_col_def rows_mask_seq rows_mask_map Let_def comp_def
      split: sum.splits if_splits)

lemma example_split_eq: "split_data example_self 2018 2019 = Inr example_split"
  by (simp add: split_data_def example_self_def example_combined_def df_col_def cell_at_def
      df_mask_def example_split_def)

lemma example_xgb_split_eq: "xgb_split_data example_xgb = Inr example_xgb_split"
  by (simp add: xgb_split_data_def example_xgb_def df_col_def cell_at_def df_mask_def
      df_select_def Let_def example_xgb_split_def)

lemma example_split_back:
  "split_data example_self 2019 2018 =
     Inr (example_self\<lparr>train_data := Some example_combined,
            test_data := Some \<lparr>columns = [''comune'', ''cns deaths'', ''year''],
              rows = [[(''comune'', Str ''A''), (''cns deaths'', Num 3), (''year'', Num 2018)],
                      [(''comune'', Str ''B''), (''cns deaths'', Num 4), (''year'', Num 2018)]]\<rparr>\<rparr>)"
  by (simp add: split_data_def example_self_def example_combined_def df_col_def cell_at_def
      df_mask_def)

text \<open>
  Claim C1, as the spec states it, fails: the time-series split does not compare the two
  years, and with a test year that is not after the cutoff year the record of
  municipality A in 2018 is in the training set and in the test set.
\<close>

theorem split_overlap_counterexample:
  "\<not> isl (split_data example_self 2019 2018)
   \<and> (Str ''A'', Num 2018)
       \<in> set (frame_keys (train_data (projr (split_data example_self 2019 2018))))
   \<and> (Str ''A'', Num 2018)
       \<in> set (frame_keys (test_data (projr (split_data example_self 2019 2018))))"
  by (simp add: example_split_back frame_keys_def record_key_def cell_at_def
      example_combined_def)

text \<open>
  Claim C1, amended. Whenever the time-series split succeeds with a test year after the
  cutoff year, its training set and its test set have no (municipality, year) pair in
  common; whenever the tabular split (year index below 10 against year index 10)
  succeeds, its two sets have no such pair in common.
\<close>

theorem split_disjoint:
  "(split_data self train_year test_year = Inr s \<and> train_year < test_year \<longrightarrow>
      set (frame_keys (train_data s)) \<inter> set (frame_keys (test_data s)) = {})
   \<and> (xgb_split_data xself = Inr xs \<longrightarrow>
      set (frame_keys (xgb_train_data xs)) \<inter> set (frame_keys (xgb_test_data xs)) = {})"
proof (intro conjI impI)
  assume a: "split_data self train_year test_year = Inr s \<and> train_year < test_year"
  from split_data_Inr [of self train_year test_year s] a obtain tr te where
    tr: "train_data s = Some tr" and te: "test_data s = Some te"
    and rtr: "rows tr = filter (\<lambda>r. cell_le (cell_at r ''year'') (of_int train_year) = Inr True)
                    (rows (combined_data self))"
    and rte: "rows te = filter (\<lambda>r. cell_eq (cell_at r ''year'') (Num (of_int test_year)))
                    (rows (combined_data self))"
    by blast
  show "set (frame_keys (train_data s)) \<inter> set (frame_keys (test_data s)) = {}"
  proof (rule ccontr)
    assume "set (frame_keys (train_data s)) \<inter> set (frame_keys (test_data s)) \<noteq> {}"
    then obtain k where "k \<in> record_key ` set (rows tr)" "k \<in> record_key ` set (rows te)"
      by (auto simp: frame_keys_def tr te)
    then obtain r1 r2 where r1: "r1 \<in> set (rows tr)" and r2: "r2 \<in> set (rows te)"
      and k: "record_key r1 = record_key r2"
      by (metis imageE)
    from r1 rtr obtain y where y: "cell_at r1 ''year'' = Num y" "y \<le> of_int train_year"
      using cell_le_True by auto
    from r2 rte have "cell_at r2 ''year'' = Num (of_int test_year)"
      using cell_eq_Num by auto
    with k y have "real_of_int test_year \<le> of_int train_year" by (simp add: record_key_def)
    with a show False by simp
  qed
next
  assume a: "xgb_split_data xself = Inr xs"
  from xgb_split_data_Inr [OF a] obtain tr te where
    tr: "xgb_train_data xs = Some tr" and te: "xgb_test_data xs = Some te"
    and rtr: "rows tr = filter (\<lambda>r. cell_lt (cell_at r ''year'') 10 = Inr True) (rows (data xself))"
    and rte: "rows te = filter (\<lambda>r. cell_eq (cell_at r ''year'') (Num 10)) (rows (data xself))"
    by blast
  show "set (frame_keys (xgb_train_data xs)) \<inter> set (frame_keys (xgb_test_data xs)) = {}"
  proof (rule ccontr)
    assume "set (frame_keys (xgb_train_data xs)) \<inter> set (frame_keys (xgb_test_data xs)) \<noteq> {}"
    then obtain k where "k \<in> record_key ` set (rows tr)" "k \<in> record_key ` set (rows te)"
      by (auto simp: frame_keys_def tr te)
    then obtain r1 r2 where r1: "r1 \<in> set (rows tr)" and r2: "r2 \<in> set (rows te)"
      and k: "record_key r1 = record_key r2"
      by (metis imageE)
    from r1 rtr obtain y where y: "cell_at r1 ''year'' = Num y" "y < 10"
      using cell_lt_True by auto
    from r2 rte have "cell_at r2 ''year'' = Num 10"
      using cell_eq_Num by auto
    with k y show False by (simp add: record_key_def)
  qed
qed

theorem split_disjoint_witness:
  "(split_data example_self 2018 2019 = Inr example_split \<and> (2018::int) < 2019)
   \<and> set (frame_keys (train_data example_split)) \<inter> set (frame_keys (test_data example_split)) = {}
   \<and> xgb_split_data example_xgb = Inr example_xgb_split
   \<and> set (frame_keys (xgb_train_data example_xgb_split))
       \<inter> set (frame_keys (xgb_test_data example_xgb_split)) = {}"
  using split_disjoint [of example_self 2018 2019 example_split example_xgb example_xgb_split]
    example_split_eq example_xgb_split_eq
  by simp

section \<open>Facts about the tabular assembler\<close>

lemma col_set_col:
  "length vs = length (rows df) \<Longrightarrow> map (\<lambda>r. cell_at r c) (rows (df_set_col c vs df)) = vs"
proof -
  assume l: "length vs = length (rows df)"
  have "map (\<lambda>r. cell_at r c) (rows (df_set_col c vs df)) = map snd (zip (rows df) vs)"
    by (simp add: df_set_col_def comp_def split_def)
  with l show ?thesis by simp
qed

lemma col_set_col_other:
  "length vs = length (rows df) \<Longrightarrow> c' \<noteq> c \<Longrightarrow>
   map (\<lambda>r. cell_at r c') (rows (df_set_col c vs df)) = map (\<lambda>r. cell_at r c') (rows df)"
proof -
  assume l: "length vs = length (rows df)" and n: "c' \<noteq> c"
  have "map (\<lambda>r. cell_at r c') (rows (df_set_col c vs df))
      = map (\<lambda>r. cell_at r c') (map fst (zip (rows df) vs))"
    using n by (simp add: df_set_col_def comp_def split_def)
  with l show ?thesis by simp
qed

lemma columns_set_col: "set (columns (df_set_col c vs df)) = insert c (set (columns df))"
  by (auto simp: df_set_col_def)

lemma df_select_cases:
  "df_select cols df =
     (if set cols \<subseteq> set (columns df)
      then Inr \<lparr>columns = cols, rows = map (\<lambda>r. map (\<lambda>c. (c, cell_at r c)) cols) (rows df)\<rparr>
      else Inl (KeyError (hd (filter (\<lambda>c. c \<notin> set (columns df)) cols))))"
proof (cases "filter (\<lambda>c. c \<notin> set (columns df)) cols")
  case Nil
  then have "set cols \<subseteq> set (columns df)" by (auto simp: filter_empty_conv)
  with Nil show ?thesis by (simp add: df_select_def)
next
  case (Cons c cs)
  then have "c \<in> set (filter (\<lambda>c. c \<notin> set (columns df)) cols)" by simp
  then have "\<not> set cols \<subseteq> set (columns df)" by auto
  with Cons show ?thesis by (simp add: df_select_def)
qed

lemma df_select_Inr:
  assumes "df_select cols df = Inr d"
  shows "columns d = cols" and "set cols \<subseteq> set (columns df)"
    and "rows d = map (\<lambda>r. map (\<lambda>c. (c, cell_at r c)) cols) (rows df)"
  using assms by (auto simp: df_select_cases split: if_splits)

lemma col_select:
  assumes "df_select cols df = Inr d" "c \<in> set cols"
  shows "map (\<lambda>r. cell_at r c) (rows d) = map (\<lambda>r. cell_at r c) (rows df)"
  using assms(2) by (simp add: df_select_Inr(3) [OF assms(1)] comp_def)

lemma df_concat_Inr:
  assumes "df_concat fs = Inr d"
  shows "fs \<noteq> []" and "set (columns d) = (\<Union>f \<in> set fs. set (columns f))"
    and "rows d = map (\<lambda>r. map (\<lambda>c. (c, cell_at r c)) (columns d)) (concat (map rows fs))"
  using assms by (auto simp: df_concat_def Let_def split: if_splits)

lemma div_block:
  "0 < n \<Longrightarrow> map (\<lambda>i. i div n) [0..<n * m] = concat (map (replicate n) [0..<m])"
proof (induction m)
  case 0
  then show ?case by simp
next
  case (Suc m)
  have "[0..<n * Suc m] = [0..<n * m] @ [n * m..<n * m + n]"
    using upt_add_eq_append [of 0 "n * m" n] by (simp add: add.commute)
  moreover have "map (\<lambda>i. i div n) [n * m..<n * m + n] = replicate n m"
  proof -
    have "\<And>i. i \<in> set [n * m..<n * m + n] \<Longrightarrow> i div n = m"
    proof -
      fix i assume "i \<in> set [n * m..<n * m + n]"
      then have "n * m \<le> i" "i < n * m + n" by auto
      then show "i div n = m"
        by (intro div_nat_eqI) (simp_all add: mult.commute)
    qed
    then have "map (\<lambda>i. i div n) [n * m..<n * m + n] = map (\<lambda>i. m) [n * m..<n * m + n]"
      by (intro map_cong) auto
    then show ?thesis by (simp add: map_replicate_const)
  qed
  ultimately show ?case using Suc by simp
qed

lemma length_concat_const:
  "(\<forall>x \<in> set xs. length (f x) = n) \<Longrightarrow> length (concat (map f xs)) = n * length xs"
  by (induction xs) auto

lemma xgb_prepare_data_year:
  assumes "xgb_prepare_data wb = Inr d"
  shows "year_column d =
         map (\<lambda>i. Num (real (i div 107))) [0..<length (concat (map (\<lambda>(n, df). rows df) wb))]"
proof -
  from assms obtain d0 where c: "df_concat (map snd wb) = Inr d0"
    and s: "df_select [''year'', ''comune'', ''PM2.5'', ''PM10'', ''cns deaths'']
            (df_set_col ''year'' (map (\<lambda>i. Num (real (i div 107))) [0..<length (rows d0)]) d0) = Inr d"
    by (auto simp: xgb_prepare_data_def split: sum.splits)
  have len: "length (rows d0) = length (concat (map (\<lambda>(n, df). rows df) wb))"
    by (simp add: df_concat_Inr(3) [OF c] comp_def split_def)
  have "year_column d = map (\<lambda>r. cell_at r ''year'')
      (rows (df_set_col ''year'' (map (\<lambda>i. Num (real (i div 107))) [0..<length (rows d0)]) d0))"
    unfolding year_column_def by (rule col_select [OF s]) simp
  also have "\<dots> = map (\<lambda>i. Num (real (i div 107))) [0..<length (rows d0)]"
    by (rule col_set_col) simp
  finally show ?thesis by (simp add: len)
qed

lemma assign_years_Inl: "assign_years py_int wb = Inl e \<Longrightarrow> e = ValueError"
  by (induction wb) (auto split: option.splits sum.splits)

lemma prepare_data_Inl: "prepare_data py_int wb = Inl e \<Longrightarrow> e = ValueError"
  by (auto simp: prepare_data_def df_concat_def Let_def dest: assign_years_Inl
      split: sum.splits if_splits)

lemma prepare_data_succeeds:
  "(\<exists>cd. prepare_data py_int wb = Inr cd) \<longleftrightarrow> wb \<noteq> [] \<and> (\<forall>(n, df) \<in> set wb. py_int n \<noteq> None)"
proof
  assume "\<exists>cd. prepare_data py_int wb = Inr cd"
  then obtain cd where "prepare_data py_int wb = Inr cd" ..
  from prepare_data_Inr(3,4) [OF this]
  show "wb \<noteq> [] \<and> (\<forall>(n, df) \<in> set wb. py_int n \<noteq> None)" by simp
next
  assume a: "wb \<noteq> [] \<and> (\<forall>(n, df) \<in> set wb. py_int n \<noteq> None)"
  then obtain fs where fs: "assign_years py_int wb = Inr fs" using assign_years_total by blast
  from assign_years_Inr [OF fs] a have "fs \<noteq> []" by auto
  then show "\<exists>cd. prepare_data py_int wb = Inr cd"
    by (simp add: prepare_data_def fs df_concat_def Let_def)
qed

lemma xgb_prepare_data_succeeds:
  "(\<exists>d. xgb_prepare_data wb = Inr d) \<longleftrightarrow>
     wb \<noteq> [] \<and> (\<forall>c \<in> set [''comune'', ''PM2.5'', ''PM10'', ''cns deaths''].
                   \<exists>(n, df) \<in> set wb. c \<in> set (columns df))"
proof (cases "wb = []")
  case True
  then show ?thesis by (simp add: xgb_prepare_data_def df_concat_def)
next
  case False
  then obtain d0 where d0: "df_concat (map snd wb) = Inr d0"
    by (simp add: df_concat_def Let_def)
  have cols: "set (columns d0) = (\<Union>(n, df) \<in> set wb. set (columns df))"
    using df_concat_Inr(2) [OF d0] by (auto simp: split_def)
  let ?d1 = "df_set_col ''year'' (map (\<lambda>i. Num (real (i div 107))) [0..<length (rows d0)]) d0"
  have "(\<exists>d. xgb_prepare_data wb = Inr d) \<longleftrightarrow>
      set [''year'', ''comune'', ''PM2.5'', ''PM10'', ''cns deaths''] \<subseteq> set (columns ?d1)"
    by (simp add: xgb_prepare_data_def d0 df_select_cases)
  also have "\<dots> \<longleftrightarrow> (\<forall>c \<in> set [''comune'', ''PM2.5'', ''PM10'', ''cns deaths''].
                   \<exists>(n, df) \<in> set wb. c \<in> set (columns df))"
    unfolding columns_set_col cols by auto
  finally show ?thesis using False by simp
qed

lemma xgb_prepare_data_Inl:
  assumes "xgb_prepare_data wb = Inl e" "wb \<noteq> []"
  shows "\<exists>c \<in> set [''comune'', ''PM2.5'', ''PM10'', ''cns deaths''].
           e = KeyError c \<and> (\<forall>(n, df) \<in> set wb. c \<notin> set (columns df))"
proof -
  from assms(2) obtain d0 where d0: "df_concat (map snd wb) = Inr d0"
    by (simp add: df_concat_def Let_def)
  have cols: "set (columns d0) = (\<Union>(n, df) \<in> set wb. set (columns df))"
    using df_concat_Inr(2) [OF d0] by (auto simp: split_def)
  let ?d1 = "df_set_col ''year'' (map (\<lambda>i. Num (real (i div 107))) [0..<length (rows d0)]) d0"
  let ?req = "[''year'', ''comune'', ''PM2.5'', ''PM10'', ''cns deaths'']"
  let ?missing = "filter (\<lambda>c. c \<notin> set (columns ?d1)) ?req"
  from assms(1) have sel: "df_select ?req ?d1 = Inl e"
    by (simp add: xgb_prepare_data_def d0)
  then have ns: "\<not> set ?req \<subseteq> set (columns ?d1)" and e: "e = KeyError (hd ?missing)"
    by (auto simp only: df_select_cases split: if_splits)
  from ns have "?missing \<noteq> []" by (auto simp: filter_empty_conv)
  then have "hd ?missing \<in> set ?missing" by (rule hd_in_set)
  then have m: "hd ?missing \<in> set ?req" "hd ?missing \<notin> set (columns ?d1)" by auto
  from m(2) have ny: "hd ?missing \<noteq> ''year''" and nc: "hd ?missing \<notin> set (columns d0)"
    by (auto simp: columns_set_col)
  from m(1) ny have "hd ?missing \<in> set [''comune'', ''PM2.5'', ''PM10'', ''cns deaths'']" by auto
  moreover from nc have "\<forall>(n, df) \<in> set wb. hd ?missing \<notin> set (columns df)"
    unfolding cols by auto
  ultimately show ?thesis using e by blast
qed

lemma example_gap_prepare:
  "prepare_data decimal_int example_gap_wb =
     Inr \<lparr>columns = [''comune'', ''PM2.5'', ''PM10'', ''cns deaths'', ''year''],
          rows = [[(''comune'', Str ''A''), (''PM2.5'', Num 11), (''PM10'', Num 20),
                   (''cns deaths'', Num 3), (''year'', Num 2018)],
                  [(''comune'', NaN), (''PM2.5'', Num 13), (''PM10'', Num 22),
                   (''cns deaths'', Num 5), (''year'', Num 2019)]]\<rparr>"
  by (simp add: prepare_data_def example_gap_wb_def decimal_int_2018 decimal_int_2019 df_assign_def
      df_concat_def unique_def cell_at_def)

lemma example_gap_xgb_prepare:
  "xgb_prepare_data example_gap_wb =
     Inr \<lparr>columns = [''year'', ''comune'', ''PM2.5'', ''PM10'', ''cns deaths''],
          rows = [[(''year'', Num 0), (''comune'', Str ''A''), (''PM2.5'', Num 11),
                   (''PM10'', Num 20), (''cns deaths'', Num 3)],
                  [(''year'', Num 0), (''comune'', NaN), (''PM2.5'', Num 13),
                   (''PM10'', Num 22), (''cns deaths'', Num 5)]]\<rparr>"
  by (simp add: xgb_prepare_data_def example_gap_wb_def df_set_col_def df_select_def
      df_concat_def unique_def cell_at_def upt_rec)

lemma example_tab_prepare:
  "xgb_prepare_data example_tab_wb =
     Inr \<lparr>columns = [''year'', ''comune'', ''PM2.5'', ''PM10'', ''cns deaths''],
        rows =
          [[(''year'', Num 0), (''comune'', Str ''B''), (''PM2.5'', Num 11),
            (''PM10'', Num 20), (''cns deaths'', Num 3)],
           [(''year'', Num 0), (''comune'', Str ''A''), (''PM2.5'', Num 12),
            (''PM10'', Num 21), (''cns deaths'', Num 4)],
           [(''year'', Num 0), (''comune'', Str ''A''), (''PM2.5'', Num 13),
            (''PM10'', Num 22), (''cns deaths'', Num 5)]]\<rparr>"
  by (simp add: xgb_prepare_data_def example_tab_wb_def df_set_col_def df_select_def
      df_concat_def unique_def cell_at_def upt_rec)

lemma example_full_ok: "\<exists>d. xgb_prepare_data example_full_wb = Inr d"
  unfolding xgb_prepare_data_succeeds by (simp add: example_full_wb_def)

section \<open>Missing columns\<close>

text \<open>
  Claim C3, as the spec states it, fails: neither assembler checks the columns of a sheet.
  In the workbook below the sheet of 2019 has no \<open>comune\<close> column; the time-series
  assembler returns a dataset whose second record has a missing municipality, and the
  tabular assembler returns a dataset too.
\<close>

theorem schema_unchecked_counterexample:
  "prepare_data decimal_int example_gap_wb =
     Inr \<lparr>columns = [''comune'', ''PM2.5'', ''PM10'', ''cns deaths'', ''year''],
          rows = [[(''comune'', Str ''A''), (''PM2.5'', Num 11), (''PM10'', Num 20),
                   (''cns deaths'', Num 3), (''year'', Num 2018)],
                  [(''comune'', NaN), (''PM2.5'', Num 13), (''PM10'', Num 22),
                   (''cns deaths'', Num 5), (''year'', Num 2019)]]\<rparr>
   \<and> \<not> isl (xgb_prepare_data example_gap_wb)"
  by (simp add: example_gap_prepare example_gap_xgb_prepare)

text \<open>
  Claim C3, amended. The time-series assembler succeeds exactly when the workbook has a
  sheet and the builtin \<^verbatim>\<open>int\<close> accepts every sheet name, whatever columns the sheets
  have; when it fails, it fails with \<^verbatim>\<open>ValueError\<close>. The tabular assembler succeeds
  exactly when the workbook has a sheet and each of the columns \<open>comune\<close>, \<open>PM2.5\<close>,
  \<open>PM10\<close> and \<open>cns deaths\<close> occurs in at least one sheet; on a workbook without sheets
  it fails with \<^verbatim>\<open>ValueError\<close>, and on a workbook with a sheet its failure is the
  \<^verbatim>\<open>KeyError\<close> of one of these columns, one that no sheet has.
\<close>

theorem assembler_failures:
  "((\<exists>cd. prepare_data py_int wb = Inr cd) \<longleftrightarrow>
      wb \<noteq> [] \<and> (\<forall>(n, df) \<in> set wb. py_int n \<noteq> None))
   \<and> (prepare_data py_int wb = Inl e \<longrightarrow> e = ValueError)
   \<and> ((\<exists>d. xgb_prepare_data wb = Inr d) \<longleftrightarrow>
      wb \<noteq> [] \<and> (\<forall>c \<in> set [''comune'', ''PM2.5'', ''PM10'', ''cns deaths''].
                    \<exists>(n, df) \<in> set wb. c \<in> set (columns df)))
   \<and> xgb_prepare_data [] = Inl ValueError
   \<and> (xgb_prepare_data wb = Inl e' \<and> wb \<noteq> [] \<longrightarrow>
      (\<exists>c \<in> set [''comune'', ''PM2.5'', ''PM10'', ''cns deaths''].
          e' = KeyError c \<and> (\<forall>(n, df) \<in> set wb. c \<notin> set (columns df))))"
proof -
  have "xgb_prepare_data [] = Inl ValueError"
    by (simp add: xgb_prepare_data_def df_concat_def)
  moreover have "prepare_data py_int wb = Inl e \<longrightarrow> e = ValueError"
    using prepare_data_Inl [of py_int wb e] by blast
  ultimately show ?thesis
    using prepare_data_succeeds [of py_int wb] xgb_prepare_data_succeeds [of wb]
      xgb_prepare_data_Inl [of wb e']
    by blast
qed

theorem assembler_failures_witness:
  "(\<exists>cd. prepare_data decimal_int example_gap_wb = Inr cd)
   \<and> example_gap_wb \<noteq> []
   \<and> map (\<lambda>(n, df). decimal_int n) example_gap_wb = [Some 2018, Some 2019]
   \<and> decimal_int ''Sheet1'' = None
   \<and> prepare_data decimal_int [(''Sheet1'', \<lparr>columns = [], rows = []\<rparr>)] = Inl ValueError
   \<and> (\<exists>d. xgb_prepare_data example_gap_wb = Inr d)
   \<and> map (\<lambda>(n, df). columns df) example_gap_wb
       = [[''comune'', ''PM2.5'', ''PM10'', ''cns deaths''], [''PM2.5'', ''PM10'', ''cns deaths'']]
   \<and> xgb_prepare_data [] = Inl ValueError
   \<and> xgb_prepare_data example_nocol_wb = Inl (KeyError ''comune'')
   \<and> example_nocol_wb \<noteq> []
   \<and> map (\<lambda>(n, df). columns df) example_nocol_wb = [[''PM2.5'', ''PM10'', ''cns deaths'']]"
proof -
  note t1 = assembler_failures [where py_int = decimal_int and wb = example_gap_wb]
  note t2 = assembler_failures [where py_int = decimal_int
      and wb = "[(''Sheet1'', \<lparr>columns = [], rows = []\<rparr>)]" and e = ValueError]
  note t3 = assembler_failures [where wb = example_nocol_wb and e' = "KeyError ''comune''"]
  have n: "map (\<lambda>(n, df). decimal_int n) example_gap_wb = [Some 2018, Some 2019]"
    "example_gap_wb \<noteq> []"
    "map (\<lambda>(n, df). columns df) example_gap_wb
       = [[''comune'', ''PM2.5'', ''PM10'', ''cns deaths''], [''PM2.5'', ''PM10'', ''cns deaths'']]"
    by (simp_all add: example_gap_wb_def decimal_int_2018 decimal_int_2019)
  have ok: "\<forall>(n, df) \<in> set example_gap_wb. decimal_int n \<noteq> None"
    by (simp add: example_gap_wb_def decimal_int_2018 decimal_int_2019)
  from t1 n(2) ok have a: "\<exists>cd. prepare_data decimal_int example_gap_wb = Inr cd" by blast
  have s: "decimal_int ''Sheet1'' = None"
    by (simp add: decimal_int_def is_digit_def)
  then have b: "prepare_data decimal_int [(''Sheet1'', \<lparr>columns = [], rows = []\<rparr>)] = Inl ValueError"
    by (simp add: prepare_data_def)
  have cols: "\<forall>c \<in> set [''comune'', ''PM2.5'', ''PM10'', ''cns deaths''].
      \<exists>(n, df) \<in> set example_gap_wb. c \<in> set (columns df)"
    by (simp add: example_gap_wb_def)
  from t1 n(2) cols have c: "\<exists>d. xgb_prepare_data example_gap_wb = Inr d" by blast
  from t2 have d: "xgb_prepare_data [] = Inl ValueError" by blast
  have m: "example_nocol_wb \<noteq> []"
    "map (\<lambda>(n, df). columns df) example_nocol_wb = [[''PM2.5'', ''PM10'', ''cns deaths'']]"
    by (simp_all add: example_nocol_wb_def)
  have "\<not> (\<forall>c \<in> set [''comune'', ''PM2.5'', ''PM10'', ''cns deaths''].
      \<exists>(n, df) \<in> set example_nocol_wb. c \<in> set (columns df))"
    by (simp add: example_nocol_wb_def)
  with t3 have "\<not> (\<exists>d. xgb_prepare_data example_nocol_wb = Inr d)" by blast
  then have e: "xgb_prepare_data example_nocol_wb = Inl (KeyError ''comune'')"
    by (simp add: example_nocol_wb_def xgb_prepare_data_def df_set_col_def
        df_select_def df_concat_def unique_def cell_at_def upt_rec)
  from a n s b c d e m show ?thesis by blast
qed

section \<open>The year of a record and the sheet it comes from\<close>

text \<open>
  Claim C6, as the spec states it, fails for the tabular assembler: it never reads the
  sheet names. In the workbook below the sheets are those of 2018 (two rows) and 2019
  (one row), and all three records get the year 0.
\<close>

theorem tabular_year_counterexample:
  "\<not> isl (xgb_prepare_data example_tab_wb)
   \<and> year_column (projr (xgb_prepare_data example_tab_wb)) = [Num 0, Num 0, Num 0]
   \<and> map (\<lambda>(n, df). (n, length (rows df))) example_tab_wb
       = [(''2018'', 2), (''2019'', 1)]"
proof -
  have "map (\<lambda>(n, df). (n, length (rows df))) example_tab_wb
       = [(''2018'', 2), (''2019'', 1)]"
    by (simp add: example_tab_wb_def)
  then show ?thesis
    by (simp add: example_tab_prepare year_column_def cell_at_def)
qed

text \<open>
  Claim C6, amended. In the dataset of the time-series assembler the year column is, sheet
  after sheet in workbook order, the integer that the builtin \<^verbatim>\<open>int\<close> returns on the
  sheet's name, once for each row of the sheet, and the builtin accepts every sheet name. In the dataset of the tabular assembler the year of the record at position
  \<open>i\<close> of the concatenated sheets is \<open>i div 107\<close>; when every sheet has exactly 107 rows this
  is the position of the record's sheet in the workbook, counted from 0.
\<close>

theorem year_provenance:
  "(prepare_data py_int wb = Inr cd \<longrightarrow>
      year_column cd =
        concat (map (\<lambda>(n, df). replicate (length (rows df)) (Num (of_int (the (py_int n))))) wb)
      \<and> (\<forall>(n, df) \<in> set wb. py_int n \<noteq> None))
   \<and> (xgb_prepare_data wb' = Inr d \<longrightarrow>
      year_column d =
        map (\<lambda>i. Num (real (i div 107))) [0..<length (concat (map (\<lambda>(n, df). rows df) wb'))]
      \<and> ((\<forall>(n, df) \<in> set wb'. length (rows df) = 107) \<longrightarrow>
           year_column d = concat (map (\<lambda>k. replicate 107 (Num (real k))) [0..<length wb'])))"
proof (intro conjI impI)
  assume a: "prepare_data py_int wb = Inr cd"
  show "year_column cd =
        concat (map (\<lambda>(n, df). replicate (length (rows df)) (Num (of_int (the (py_int n))))) wb)"
    unfolding year_column_def by (rule prepare_data_Inr(2) [OF a])
  show "\<forall>(n, df) \<in> set wb. py_int n \<noteq> None" by (rule prepare_data_Inr(4) [OF a])
next
  assume a: "xgb_prepare_data wb' = Inr d"
  show y: "year_column d =
        map (\<lambda>i. Num (real (i div 107))) [0..<length (concat (map (\<lambda>(n, df). rows df) wb'))]"
    by (rule xgb_prepare_data_year [OF a])
  assume b: "\<forall>(n, df) \<in> set wb'. length (rows df) = 107"
  then have "length (concat (map (\<lambda>(n, df). rows df) wb')) = 107 * length wb'"
    by (intro length_concat_const) auto
  with y have "year_column d = map (\<lambda>k. Num (real k)) (map (\<lambda>i. i div 107) [0..<107 * length wb'])"
    by (simp add: comp_def)
  also have "\<dots> = map (\<lambda>k. Num (real k)) (concat (map (replicate 107) [0..<length wb']))"
    by (simp only: div_block [of 107 "length wb'", simplified])
  also have "\<dots> = concat (map (\<lambda>k. replicate 107 (Num (real k))) [0..<length wb'])"
    by (simp add: map_concat comp_def)
  finally show "year_column d = concat (map (\<lambda>k. replicate 107 (Num (real k))) [0..<length wb'])" .
qed

theorem year_provenance_witness:
  "(prepare_data decimal_int example_wb = Inr example_combined
      \<and> year_column example_combined = [Num 2018, Num 2018, Num 2019])
   \<and> xgb_prepare_data example_full_wb = Inr (projr (xgb_prepare_data example_full_wb))
   \<and> map (\<lambda>(n, df). length (rows df)) example_full_wb = [107]
   \<and> year_column (projr (xgb_prepare_data example_full_wb)) = replicate 107 (Num 0)"
proof -
  from example_full_ok
  have ok: "xgb_prepare_data example_full_wb = Inr (projr (xgb_prepare_data example_full_wb))"
    by auto
  have all: "\<forall>(n, df) \<in> set example_full_wb. length (rows df) = 107"
    by (simp add: example_full_wb_def)
  from year_provenance [of decimal_int example_wb example_combined example_full_wb
      "projr (xgb_prepare_data example_full_wb)"] example_prepare ok all
  have "year_column example_combined =
        concat (map (\<lambda>(n, df). replicate (length (rows df)) (Num (of_int (the (decimal_int n)))))
          example_wb)"
    and "year_column (projr (xgb_prepare_data example_full_wb)) =
        concat (map (\<lambda>k. replicate 107 (Num (real k))) [0..<length example_full_wb])"
    by blast+
  then show ?thesis using ok example_prepare
    by (simp add: example_wb_def example_full_wb_def decimal_int_2018 decimal_int_2019)
qed

section \<open>Facts about the loop over the municipalities\<close>

lemma select_comune_cases:
  "select_comune df e =
     (if ''comune'' \<in> set (columns df)
      then Inr \<lparr>columns = columns df,
                rows = filter (\<lambda>r. cell_eq (cell_at r ''comune'') e) (rows df)\<rparr>
      else Inl (KeyError ''comune''))"
  by (simp add: select_comune_def df_col_def df_mask_def mask_filter comp_def)

lemma predict_arima_cases:
  "predict_arima fit df =
     (if ''cns deaths'' \<in> set (columns df) then fit (map (\<lambda>r. cell_at r ''cns deaths'') (rows df))
      else Inl (KeyError ''cns deaths''))"
  by (simp add: predict_arima_def df_col_def)

lemma entity_loop_Inr:
  "entity_loop fit self cs preds = Inr out \<Longrightarrow>
     \<exists>new. out = preds @ new \<and> map fst new = filter (eligible self) cs \<and>
       (\<forall>(e, p, a) \<in> set new. fit (train_series self e) = Inr p)"
proof (induction cs arbitrary: preds)
  case Nil
  then show ?case by simp
next
  case (Cons c cs)
  from Cons.prems obtain tr te where tr: "train_data self = Some tr" and te: "test_data self = Some te"
    by (auto split: option.splits sum.splits)
  from Cons.prems tr te have ctr: "''comune'' \<in> set (columns tr)" and cte: "''comune'' \<in> set (columns te)"
    by (auto simp: select_comune_cases split: if_splits)
  have el: "eligible self c \<longleftrightarrow>
      \<not> df_empty \<lparr>columns = columns tr, rows = filter (\<lambda>r. cell_eq (cell_at r ''comune'') c) (rows tr)\<rparr>
      \<and> \<not> df_empty \<lparr>columns = columns te, rows = filter (\<lambda>r. cell_eq (cell_at r ''comune'') c) (rows te)\<rparr>"
    using ctr cte by (auto simp: eligible_def city_rows_def tr te df_empty_def)
  show ?case
  proof (cases "eligible self c")
    case True
    with Cons.prems obtain p a where p: "fit (train_series self c) = Inr p"
      and rest: "entity_loop fit self cs (preds @ [(c, p, a)]) = Inr out"
      using el ctr cte 
      by (auto simp: tr te select_comune_cases predict_arima_cases train_series_def city_rows_def
          split: sum.splits if_splits)
    from Cons.IH [OF rest] obtain new where "out = (preds @ [(c, p, a)]) @ new"
      "map fst new = filter (eligible self) cs" "\<forall>(e, p, a) \<in> set new. fit (train_series self e) = Inr p"
      by blast
    then show ?thesis using True p
      by (intro exI [of _ "(c, p, a) # new"]) simp
  next
    case False
    with Cons.prems have rest: "entity_loop fit self cs preds = Inr out"
      using el ctr cte by (auto simp: tr te select_comune_cases split: sum.splits if_splits)
    from Cons.IH [OF rest] False show ?thesis by simp
  qed
qed


lemma entity_loop_total:
  assumes tr: "train_data self = Some tr" and te: "test_data self = Some te"
    and c: "''comune'' \<in> set (columns tr)" "''comune'' \<in> set (columns te)"
    and d: "''cns deaths'' \<in> set (columns tr)" "''cns deaths'' \<in> set (columns te)"
    and ok: "\<forall>e \<in> set cs. eligible self e \<longrightarrow> (\<exists>p. fit (train_series self e) = Inr p)"
  shows "\<exists>out. entity_loop fit self cs preds = Inr out"
  using ok
proof (induction cs arbitrary: preds)
  case Nil
  then show ?case by simp
next
  case (Cons a cs)
  have el: "eligible self a \<longleftrightarrow>
      \<not> df_empty \<lparr>columns = columns tr, rows = filter (\<lambda>r. cell_eq (cell_at r ''comune'') a) (rows tr)\<rparr>
      \<and> \<not> df_empty \<lparr>columns = columns te, rows = filter (\<lambda>r. cell_eq (cell_at r ''comune'') a) (rows te)\<rparr>"
    using c by (auto simp: eligible_def city_rows_def tr te df_empty_def)
  from Cons.prems have rest: "\<And>preds. \<exists>out. entity_loop fit self cs preds = Inr out"
    by (intro Cons.IH) auto
  show ?case
  proof (cases "eligible self a")
    case True
    with Cons.prems obtain p where p: "fit (train_series self a) = Inr p" by auto
    from True have ne: "filter (\<lambda>r. cell_eq (cell_at r ''comune'') a) (rows te) \<noteq> []"
      by (simp add: eligible_def city_rows_def te)
    then obtain r rs where rr: "filter (\<lambda>r. cell_eq (cell_at r ''comune'') a) (rows te) = r # rs"
      by (cases "filter (\<lambda>r. cell_eq (cell_at r ''comune'') a) (rows te)") auto
    from p have p': "fit (map (\<lambda>r. cell_at r ''cns deaths'')
        (filter (\<lambda>r. cell_eq (cell_at r ''comune'') a) (rows tr))) = Inr p"
      by (simp add: train_series_def city_rows_def tr)
    show ?thesis
      using True el c d rest [of "preds @ [(a, p, cell_at r ''cns deaths'')]"]
      by (simp add: tr te select_comune_cases predict_arima_cases p' iloc0_def rr)
  next
    case False
    then show ?thesis
      using el c rest [of preds] by (auto simp: tr te select_comune_cases)
  qed
qed

lemma cell_eq_imp_eq: "cell_eq x y \<Longrightarrow> x = y"
  by (cases x; cases y) auto

lemma cell_eq_refl: "cell_eq x x \<longleftrightarrow> x \<noteq> NaN"
  by (cases x) auto

lemma split_data_frames:
  assumes "split_data s0 c t = Inr self"
  shows "combined_data self = combined_data s0"
    and "\<exists>tr te. train_data self = Some tr \<and> test_data self = Some te
          \<and> columns tr = columns (combined_data self) \<and> columns te = columns (combined_data self)
          \<and> set (rows tr) \<subseteq> set (rows (combined_data self))
          \<and> set (rows te) \<subseteq> set (rows (combined_data self))"
proof -
  from assms show cd: "combined_data self = combined_data s0"
    by (auto simp: split_data_def split: sum.splits)
  from split_data_Inr [OF assms] obtain tr te where
    a: "train_data self = Some tr" "test_data self = Some te"
    and r: "rows tr = filter (\<lambda>r. cell_le (cell_at r ''year'') (of_int c) = Inr True)
                    (rows (combined_data s0))"
       "rows te = filter (\<lambda>r. cell_eq (cell_at r ''year'') (Num (of_int t)))
                    (rows (combined_data s0))"
    by blast
  from assms a have "columns tr = columns (combined_data s0)" "columns te = columns (combined_data s0)"
    by (auto simp: split_data_def split: sum.splits)
  with a r cd show "\<exists>tr te. train_data self = Some tr \<and> test_data self = Some te
          \<and> columns tr = columns (combined_data self) \<and> columns te = columns (combined_data self)
          \<and> set (rows tr) \<subseteq> set (rows (combined_data self))
          \<and> set (rows te) \<subseteq> set (rows (combined_data self))"
    by auto
qed

lemma eligible_in_column:
  assumes "train_data self = Some tr" "set (rows tr) \<subseteq> set (rows cd)" "eligible self e"
  shows "e \<in> set (map (\<lambda>r. cell_at r ''comune'') (rows cd))"
proof -
  from assms(3) obtain r where "r \<in> set (rows tr)" "cell_eq (cell_at r ''comune'') e"
    by (auto simp: eligible_def city_rows_def assms(1) filter_empty_conv)
  with assms(2) cell_eq_imp_eq show ?thesis by force
qed




lemma example_split_loop:
  "entity_loop constant_fit example_split (unique [Str ''A'', Str ''B'', Str ''A'']) []
     = Inr [(Str ''A'', 5, Num 5)]"
  by (simp add: example_split_def example_self_def example_combined_def cell_at_def unique_def
      select_comune_def df_col_def df_mask_def df_empty_def predict_arima_def iloc0_def
      constant_fit_def)

lemma example_split_facts:
  "df_col (combined_data example_split) ''comune'' = Inr [Str ''A'', Str ''B'', Str ''A'']"
  "eligible example_split (Str ''A'')" "\<not> eligible example_split (Str ''B'')"
  "''cns deaths'' \<in> set (columns (combined_data example_split))"
  by (simp_all add: example_split_def example_self_def example_combined_def df_col_def
      cell_at_def eligible_def city_rows_def)

lemma example_split_run:
  "train_and_evaluate constant_fit example_split =
     Inr (example_split\<lparr>predictions := Some [(Str ''A'', 5, Num 5)],
            metrics := Some \<lparr>mse = 0, rmse = 0, r2 = None, evs = 1, mae = 0, medae = 0\<rparr>\<rparr>)"
  by (simp add: train_and_evaluate_def example_split_facts example_split_loop
      calculate_evaluation_metrics_def compute_scores_def check_targets_def
      mean_squared_error_def r2_score_def explained_variance_score_def mean_absolute_error_def
      median_absolute_error_def residuals_def mean_def median_def score_ratio_def)

section \<open>Municipalities without training or test records\<close>

lemma entity_loop_actual:
  "entity_loop fit self cs preds = Inr out \<Longrightarrow>
   \<forall>(e, p, a) \<in> set preds. a = first_test_outcome self e \<Longrightarrow>
   \<forall>(e, p, a) \<in> set out. a = first_test_outcome self e"
proof (induction cs arbitrary: preds)
  case Nil
  then show ?case by simp
next
  case (Cons c cs)
  from Cons.prems(1) obtain tr te where tr: "train_data self = Some tr" and te: "test_data self = Some te"
    by (auto split: option.splits sum.splits)
  from Cons.prems(1) tr te have ctr: "''comune'' \<in> set (columns tr)" and cte: "''comune'' \<in> set (columns te)"
    by (auto simp: select_comune_cases split: if_splits)
  let ?ctr = "\<lparr>columns = columns tr, rows = filter (\<lambda>r. cell_eq (cell_at r ''comune'') c) (rows tr)\<rparr>"
  let ?cte = "\<lparr>columns = columns te, rows = filter (\<lambda>r. cell_eq (cell_at r ''comune'') c) (rows te)\<rparr>"
  show ?case
  proof (cases "\<not> df_empty ?ctr \<and> \<not> df_empty ?cte")
    case True
    with Cons.prems(1) obtain p a where a: "iloc0 ?cte ''cns deaths'' = Inr a"
      and rest: "entity_loop fit self cs (preds @ [(c, p, a)]) = Inr out"
      using ctr cte by (auto simp: tr te select_comune_cases split: sum.splits)
    from a have "a = first_test_outcome self c"
      by (auto simp: iloc0_def first_test_outcome_def city_rows_def te split: list.splits if_splits)
    with Cons.prems(2) have "\<forall>(e, p, a) \<in> set (preds @ [(c, p, a)]). a = first_test_outcome self e"
      by auto
    from Cons.IH [OF rest this] show ?thesis .
  next
    case False
    with Cons.prems(1) have rest: "entity_loop fit self cs preds = Inr out"
      using ctr cte by (auto simp: tr te select_comune_cases split: sum.splits if_splits)
    from Cons.IH [OF rest Cons.prems(2)] show ?thesis .
  qed
qed

lemma entity_loop_none:
  assumes tr: "train_data self = Some tr" and te: "test_data self = Some te"
    and c: "''comune'' \<in> set (columns tr)" "''comune'' \<in> set (columns te)"
    and no: "\<forall>e \<in> set cs. \<not> eligible self e"
  shows "entity_loop fit self cs preds = Inr preds"
  using no
proof (induction cs)
  case Nil
  then show ?case by simp
next
  case (Cons a cs)
  have el: "eligible self a \<longleftrightarrow>
      \<not> df_empty \<lparr>columns = columns tr, rows = filter (\<lambda>r. cell_eq (cell_at r ''comune'') a) (rows tr)\<rparr>
      \<and> \<not> df_empty \<lparr>columns = columns te, rows = filter (\<lambda>r. cell_eq (cell_at r ''comune'') a) (rows te)\<rparr>"
    using c by (auto simp: eligible_def city_rows_def tr te df_empty_def)
  from Cons.prems have "\<not> eligible self a" and "entity_loop fit self cs preds = Inr preds"
    using Cons.IH by auto
  then show ?case
    using el c by (auto simp: tr te select_comune_cases)
qed

lemma metrics_empty: "calculate_evaluation_metrics [] = Inl ValueError"
  by (simp add: calculate_evaluation_metrics_def compute_scores_def check_targets_def)

lemma metrics_ok:
  assumes "preds \<noteq> []" and "\<forall>(e, p, a) \<in> set preds. \<exists>x. a = Num x"
  shows "\<exists>sc. calculate_evaluation_metrics preds = Inr sc"
proof -
  let ?yt = "map (\<lambda>p. snd (snd p)) preds"
  have "\<And>y. y \<in> set ?yt \<Longrightarrow> to_float y = Inr (case y of Num x \<Rightarrow> x | _ \<Rightarrow> 0)"
    using assms(2) by auto
  then have "sequence (map to_float ?yt) = Inr (map (\<lambda>y. case y of Num x \<Rightarrow> x | _ \<Rightarrow> 0) ?yt)"
    by (rule sequence_all_Inr)
  then show ?thesis
    using assms(1)
    by (simp add: calculate_evaluation_metrics_def compute_scores_def check_targets_def Let_def
        del: map_map)
qed

lemma example_split_far_eq: "split_data example_self 2018 2050 = Inr example_split_far"
  by (simp add: split_data_def example_self_def example_combined_def df_col_def cell_at_def
      df_mask_def example_split_far_def)

lemma example_split_far_facts:
  "df_col (combined_data example_split_far) ''comune'' = Inr [Str ''A'', Str ''B'', Str ''A'']"
  "city_rows (test_data example_split_far) (Str ''A'') = []"
  "eligible example_split_far e = False"
  by (simp_all add: example_split_far_def example_self_def example_combined_def df_col_def
      cell_at_def eligible_def city_rows_def)

lemma example_split_far_run:
  "entity_loop constant_fit example_split_far (unique [Str ''A'', Str ''B'', Str ''A'']) [] = Inr []"
  "train_and_evaluate constant_fit example_split_far = Inl ValueError"
  by (simp_all add: train_and_evaluate_def example_split_far_def example_self_def
      example_combined_def cell_at_def unique_def select_comune_def df_col_def df_mask_def
      df_empty_def metrics_empty)

lemma example_first_outcome: "first_test_outcome example_split (Str ''A'') = Num 5"
  by (simp add: first_test_outcome_def city_rows_def example_split_def cell_at_def)

text \<open>
  Claim C5, as the spec states it, fails in its last part: skipping a municipality can
  make the run fail. After the split at 2018 and 2050 no municipality has a test record;
  the loop skips every one of them and returns the empty list, and \<open>train_and_evaluate\<close>
  then ends in the \<^verbatim>\<open>ValueError\<close> that the scores raise on empty sequences.
\<close>

theorem all_skipped_counterexample:
  "split_data example_self 2018 2050 = Inr example_split_far
   \<and> city_rows (test_data example_split_far) (Str ''A'') = []
   \<and> entity_loop constant_fit example_split_far (unique [Str ''A'', Str ''B'', Str ''A'']) []
       = Inr []
   \<and> train_and_evaluate constant_fit example_split_far = Inl ValueError"
  by (simp add: example_split_far_eq example_split_far_facts example_split_far_run)

text \<open>
  Claim C5, amended. After any split, with the municipalities taken from the combined
  dataset: whenever the loop of \<open>train_and_evaluate\<close> returns its list of predictions, a
  municipality has an entry in it exactly when its training slice and its test slice both
  have a record, and it has one entry only; the loop does return (no exception) when the
  outcome column exists and the fit succeeds on the municipalities that have both slices,
  whatever the fit would do on the others; the predictions that a completed
  \<open>train_and_evaluate\<close> stores are of that form; \<open>train_and_evaluate\<close> itself returns
  when moreover some municipality has both slices and the first test outcome of each such
  municipality is a number; and when no municipality has both slices, the loop returns
  the empty list and \<open>train_and_evaluate\<close> ends in \<^verbatim>\<open>ValueError\<close>.
\<close>

theorem runner_skips_empty_slices:
  assumes "split_data s0 train_year test_year = Inr self"
    and "df_col (combined_data self) ''comune'' = Inr cs"
  shows "(entity_loop auto_arima self (unique cs) [] = Inr preds \<longrightarrow>
            (\<forall>e. e \<in> set (map fst preds) \<longleftrightarrow> eligible self e) \<and> distinct (map fst preds))
       \<and> (''cns deaths'' \<in> set (columns (combined_data self))
            \<and> (\<forall>e. eligible self e \<longrightarrow> (\<exists>v. auto_arima (train_series self e) = Inr v)) \<longrightarrow>
            (\<exists>out. entity_loop auto_arima self (unique cs) [] = Inr out))
       \<and> (train_and_evaluate auto_arima self = Inr self' \<longrightarrow>
            (\<exists>out. predictions self' = Some out
               \<and> (\<forall>e. e \<in> set (map fst out) \<longleftrightarrow> eligible self e)))
       \<and> (''cns deaths'' \<in> set (columns (combined_data self))
            \<and> (\<exists>e. eligible self e)
            \<and> (\<forall>e. eligible self e \<longrightarrow>
                  (\<exists>v. auto_arima (train_series self e) = Inr v)
                  \<and> (\<exists>x. first_test_outcome self e = Num x)) \<longrightarrow>
            (\<exists>res. train_and_evaluate auto_arima self = Inr res))
       \<and> ((\<forall>e. \<not> eligible self e) \<longrightarrow>
            entity_loop auto_arima self (unique cs) [] = Inr []
            \<and> train_and_evaluate auto_arima self = Inl ValueError)"
proof -
  from split_data_frames(2) [OF assms(1)] obtain tr te where
    tr: "train_data self = Some tr" and te: "test_data self = Some te"
    and ctr: "columns tr = columns (combined_data self)"
    and cte: "columns te = columns (combined_data self)"
    and sub: "set (rows tr) \<subseteq> set (rows (combined_data self))"
    by blast
  from assms(2) have com: "''comune'' \<in> set (columns (combined_data self))"
    and cs: "cs = map (\<lambda>r. cell_at r ''comune'') (rows (combined_data self))"
    by (auto simp: df_col_def split: if_splits)
  have in_cs: "\<And>e. eligible self e \<Longrightarrow> e \<in> set cs"
    unfolding cs by (rule eligible_in_column [OF tr sub])
  have shape: "\<And>out. entity_loop auto_arima self (unique cs) [] = Inr out \<Longrightarrow>
      (\<forall>e. e \<in> set (map fst out) \<longleftrightarrow> eligible self e) \<and> distinct (map fst out)"
  proof -
    fix out assume "entity_loop auto_arima self (unique cs) [] = Inr out"
    from entity_loop_Inr [OF this]
    have "map fst out = filter (eligible self) (unique cs)" by auto
    then show "(\<forall>e. e \<in> set (map fst out) \<longleftrightarrow> eligible self e) \<and> distinct (map fst out)"
      using in_cs by auto
  qed
  have total: "''cns deaths'' \<in> set (columns (combined_data self))
            \<and> (\<forall>e. eligible self e \<longrightarrow> (\<exists>v. auto_arima (train_series self e) = Inr v)) \<Longrightarrow>
            (\<exists>out. entity_loop auto_arima self (unique cs) [] = Inr out)"
    by (rule entity_loop_total [OF tr te]) (auto simp: ctr cte com)
  have run: "train_and_evaluate auto_arima self = Inr self' \<Longrightarrow>
      (\<exists>out. predictions self' = Some out \<and> (\<forall>e. e \<in> set (map fst out) \<longleftrightarrow> eligible self e))"
  proof -
    assume "train_and_evaluate auto_arima self = Inr self'"
    then obtain out where "entity_loop auto_arima self (unique cs) [] = Inr out"
      and "predictions self' = Some out"
      by (auto simp: train_and_evaluate_def assms(2) split: sum.splits)
    with shape show ?thesis by blast
  qed
  have returns: "\<exists>res. train_and_evaluate auto_arima self = Inr res"
    if h: "''cns deaths'' \<in> set (columns (combined_data self))
            \<and> (\<exists>e. eligible self e)
            \<and> (\<forall>e. eligible self e \<longrightarrow>
                  (\<exists>v. auto_arima (train_series self e) = Inr v)
                  \<and> (\<exists>x. first_test_outcome self e = Num x))"
  proof -
    from h total obtain out where out: "entity_loop auto_arima self (unique cs) [] = Inr out"
      by blast
    from shape [OF out] have mem: "\<forall>e. e \<in> set (map fst out) \<longleftrightarrow> eligible self e" by simp
    from h obtain e where "eligible self e" by blast
    with mem have ne: "out \<noteq> []" by auto
    from entity_loop_actual [OF out]
    have act: "\<forall>(e, p, a) \<in> set out. a = first_test_outcome self e" by simp
    have "\<forall>(e, p, a) \<in> set out. \<exists>x. a = Num x"
    proof (clarify)
      fix e p a assume m: "(e, p, a) \<in> set out"
      then have "e \<in> set (map fst out)" by force
      with mem have "eligible self e" by simp
      with h obtain x where "first_test_outcome self e = Num x" by blast
      with act m show "\<exists>x. a = Num x" by auto
    qed
    from metrics_ok [OF ne this] obtain sc where "calculate_evaluation_metrics out = Inr sc" ..
    then show ?thesis
      by (simp add: train_and_evaluate_def assms(2) out)
  qed
  have none: "entity_loop auto_arima self (unique cs) [] = Inr []
            \<and> train_and_evaluate auto_arima self = Inl ValueError"
    if h: "\<forall>e. \<not> eligible self e"
  proof -
    have l: "entity_loop auto_arima self (unique cs) [] = Inr []"
      by (rule entity_loop_none [OF tr te]) (auto simp: ctr cte com h)
    then show ?thesis
      by (simp add: train_and_evaluate_def assms(2) metrics_empty)
  qed
  from shape total run returns none show ?thesis by blast
qed

theorem runner_skips_empty_slices_witness:
  "split_data example_self 2018 2019 = Inr example_split
   \<and> df_col (combined_data example_split) ''comune'' = Inr [Str ''A'', Str ''B'', Str ''A'']
   \<and> entity_loop constant_fit example_split (unique [Str ''A'', Str ''B'', Str ''A'']) []
       = Inr [(Str ''A'', 5, Num 5)]
   \<and> (\<forall>e. e \<in> set (map fst [(Str ''A'', 5::real, Num 5)]) \<longleftrightarrow> eligible example_split e)
   \<and> eligible example_split (Str ''A'') \<and> \<not> eligible example_split (Str ''B'')
   \<and> ''cns deaths'' \<in> set (columns (combined_data example_split))
   \<and> first_test_outcome example_split (Str ''A'') = Num 5
   \<and> (\<exists>res. train_and_evaluate constant_fit example_split = Inr res)
   \<and> split_data example_self 2018 2050 = Inr example_split_far
   \<and> df_col (combined_data example_split_far) ''comune'' = Inr [Str ''A'', Str ''B'', Str ''A'']
   \<and> (\<forall>e. eligible example_split_far e = False)
   \<and> train_and_evaluate constant_fit example_split_far = Inl ValueError"
proof -
  note t = runner_skips_empty_slices [OF example_split_eq example_split_facts(1),
      where auto_arima = constant_fit and preds = "[(Str ''A'', 5, Num 5)]"]
  note u = runner_skips_empty_slices [OF example_split_far_eq example_split_far_facts(1),
      where auto_arima = constant_fit]
  from t example_split_loop
  have m: "\<forall>e. e \<in> set (map fst [(Str ''A'', 5::real, Num 5)]) \<longleftrightarrow> eligible example_split e"
    by blast
  then have el: "\<forall>e. eligible example_split e \<longleftrightarrow> e = Str ''A''" by simp
  have "\<forall>e. eligible example_split e \<longrightarrow>
      (\<exists>v. constant_fit (train_series example_split e) = Inr v)
      \<and> (\<exists>x. first_test_outcome example_split e = Num x)"
    using el example_first_outcome by (simp add: constant_fit_def)
  with t example_split_facts(2,4)
  have r: "\<exists>res. train_and_evaluate constant_fit example_split = Inr res" by blast
  from u example_split_far_facts(3)
  have f: "train_and_evaluate constant_fit example_split_far = Inl ValueError" by blast
  from m r f example_split_eq example_split_facts example_split_loop example_first_outcome
    example_split_far_eq example_split_far_facts
  show ?thesis by simp
qed

section \<open>A fit that raises\<close>




section \<open>Forecasting the upcoming year\<close>

lemma upcoming_loop_Inr:
  "upcoming_loop fit self cs preds = Inr out \<Longrightarrow>
     \<exists>new. out = preds @ new \<and> map fst new = filter (has_record self) cs \<and>
       (\<forall>(e, p) \<in> set new. fit (full_series self e) = Inr p)"
proof (induction cs arbitrary: preds)
  case Nil
  then show ?case by simp
next
  case (Cons c cs)
  from Cons.prems have com: "''comune'' \<in> set (columns (combined_data self))"
    by (auto simp: select_comune_cases split: if_splits)
  have el: "has_record self c \<longleftrightarrow>
      \<not> df_empty \<lparr>columns = columns (combined_data self),
          rows = filter (\<lambda>r. cell_eq (cell_at r ''comune'') c) (rows (combined_data self))\<rparr>"
    using com by (auto simp: has_record_def city_rows_def df_empty_def)
  show ?case
  proof (cases "has_record self c")
    case True
    with Cons.prems obtain p where p: "fit (full_series self c) = Inr p"
      and rest: "upcoming_loop fit self cs (preds @ [(c, p)]) = Inr out"
      using el com
      by (auto simp: select_comune_cases predict_arima_cases full_series_def city_rows_def
          split: sum.splits if_splits)
    from Cons.IH [OF rest] obtain new where "out = (preds @ [(c, p)]) @ new"
      "map fst new = filter (has_record self) cs"
      "\<forall>(e, p) \<in> set new. fit (full_series self e) = Inr p"
      by blast
    then show ?thesis using True p
      by (intro exI [of _ "(c, p) # new"]) simp
  next
    case False
    with Cons.prems have rest: "upcoming_loop fit self cs preds = Inr out"
      using el com by (auto simp: select_comune_cases split: sum.splits if_splits)
    from Cons.IH [OF rest] False show ?thesis by simp
  qed
qed

lemma upcoming_loop_total:
  assumes c: "''comune'' \<in> set (columns (combined_data self))"
    and d: "''cns deaths'' \<in> set (columns (combined_data self))"
    and ok: "\<forall>e \<in> set cs. has_record self e \<longrightarrow> (\<exists>p. fit (full_series self e) = Inr p)"
  shows "\<exists>out. upcoming_loop fit self cs preds = Inr out"
  using ok
proof (induction cs arbitrary: preds)
  case Nil
  then show ?case by simp
next
  case (Cons a cs)
  have el: "has_record self a \<longleftrightarrow>
      \<not> df_empty \<lparr>columns = columns (combined_data self),
          rows = filter (\<lambda>r. cell_eq (cell_at r ''comune'') a) (rows (combined_data self))\<rparr>"
    using c by (auto simp: has_record_def city_rows_def df_empty_def)
  from Cons.prems have rest: "\<And>preds. \<exists>out. upcoming_loop fit self cs preds = Inr out"
    by (intro Cons.IH) auto
  show ?case
  proof (cases "has_record self a")
    case True
    with Cons.prems obtain p where p: "fit (full_series self a) = Inr p" by auto
    then have p': "fit (map (\<lambda>r. cell_at r ''cns deaths'')
        (filter (\<lambda>r. cell_eq (cell_at r ''comune'') a) (rows (combined_data self)))) = Inr p"
      by (simp add: full_series_def city_rows_def)
    show ?thesis
      using True el c d rest [of "preds @ [(a, p)]"]
      by (simp add: select_comune_cases predict_arima_cases p')
  next
    case False
    then show ?thesis
      using el c rest [of preds] by (auto simp: select_comune_cases)
  qed
qed

lemma has_record_column:
  assumes "e \<in> set (map (\<lambda>r. cell_at r ''comune'') (rows (combined_data self)))"
  shows "has_record self e \<longleftrightarrow> e \<noteq> NaN"
proof
  assume "has_record self e"
  then obtain r where "cell_eq (cell_at r ''comune'') e"
    by (auto simp: has_record_def city_rows_def filter_empty_conv)
  then show "e \<noteq> NaN" by (cases "cell_at r ''comune''"; cases e) auto
next
  assume n: "e \<noteq> NaN"
  from assms obtain r where r: "r \<in> set (rows (combined_data self))" "cell_at r ''comune'' = e"
    by auto
  with n have "cell_eq (cell_at r ''comune'') e" by (simp add: cell_eq_refl)
  with r show "has_record self e"
    by (auto simp: has_record_def city_rows_def filter_empty_conv)
qed

lemma example_upcoming:
  "predict_upcoming_year constant_fit example_self 2020 = Inr [(Str ''A'', 5), (Str ''B'', 5)]"
  by (simp add: predict_upcoming_year_def example_self_def example_combined_def cell_at_def
      unique_def select_comune_def df_col_def df_mask_def df_empty_def predict_arima_def
      constant_fit_def)

lemma example_self_facts:
  "df_col (combined_data example_self) ''comune'' = Inr [Str ''A'', Str ''B'', Str ''A'']"
  "full_series example_self (Str ''A'') = [Num 3, Num 5]"
  "full_series example_self (Str ''B'') = [Num 4]"
  "''year'' \<in> set (columns (combined_data example_self))"
  "''comune'' \<in> set (columns (combined_data example_self))"
  "''cns deaths'' \<in> set (columns (combined_data example_self))"
  by (simp_all add: example_self_def example_combined_def df_col_def cell_at_def
      full_series_def city_rows_def)

text \<open>
  Claim C10. The result of \<open>predict_upcoming_year\<close> is the same for any two values of its
  year argument. Whenever it returns, its list has one entry for each municipality of the
  \<open>comune\<close> column that is not the missing value, in order of first appearance and without
  repetition; these are the municipalities with at least one record; and each forecast is
  the fit of the municipality's outcomes over all records of the combined dataset, of
  every year. It does return when the three columns exist and the fit succeeds on each of
  these series.
\<close>

theorem upcoming_year_ignores_year:
  "predict_upcoming_year auto_arima self year = predict_upcoming_year auto_arima self year'
   \<and> (predict_upcoming_year auto_arima self year = Inr out
        \<and> df_col (combined_data self) ''comune'' = Inr cs \<longrightarrow>
        map fst out = filter (\<lambda>e. e \<noteq> NaN) (unique cs)
        \<and> distinct (map fst out)
        \<and> (\<forall>e. e \<in> set (map fst out) \<longleftrightarrow> has_record self e)
        \<and> (\<forall>(e, v) \<in> set out. auto_arima (full_series self e) = Inr v))
   \<and> (''year'' \<in> set (columns (combined_data self))
        \<and> ''comune'' \<in> set (columns (combined_data self))
        \<and> ''cns deaths'' \<in> set (columns (combined_data self))
        \<and> (\<forall>e. has_record self e \<longrightarrow> (\<exists>v. auto_arima (full_series self e) = Inr v)) \<longrightarrow>
        (\<exists>res. predict_upcoming_year auto_arima self year = Inr res))"
proof (intro conjI impI)
  show "predict_upcoming_year auto_arima self year = predict_upcoming_year auto_arima self year'"
    by (cases "df_col (combined_data self) ''year''")
      (simp_all add: predict_upcoming_year_def Let_def)
next
  assume a: "predict_upcoming_year auto_arima self year = Inr out
        \<and> df_col (combined_data self) ''comune'' = Inr cs"
  then have cs: "cs = map (\<lambda>r. cell_at r ''comune'') (rows (combined_data self))"
    by (auto simp: df_col_def split: if_splits)
  from a have "upcoming_loop auto_arima self (unique cs) [] = Inr out"
    by (auto simp: predict_upcoming_year_def split: sum.splits)
  from upcoming_loop_Inr [OF this]
  have m: "map fst out = filter (has_record self) (unique cs)"
    and f: "\<forall>(e, v) \<in> set out. auto_arima (full_series self e) = Inr v"
    by auto
  have "filter (has_record self) (unique cs) = filter (\<lambda>e. e \<noteq> NaN) (unique cs)"
    by (rule filter_cong) (auto simp: cs intro!: has_record_column)
  with m show m': "map fst out = filter (\<lambda>e. e \<noteq> NaN) (unique cs)" by simp
  then show "distinct (map fst out)" by simp
  show "\<forall>e. e \<in> set (map fst out) \<longleftrightarrow> has_record self e"
  proof
    fix e
    have "has_record self e \<Longrightarrow> e \<in> set cs"
    proof -
      assume "has_record self e"
      then obtain r where "r \<in> set (rows (combined_data self))" "cell_eq (cell_at r ''comune'') e"
        by (auto simp: has_record_def city_rows_def filter_empty_conv)
      with cell_eq_imp_eq show "e \<in> set cs" unfolding cs by force
    qed
    then show "e \<in> set (map fst out) \<longleftrightarrow> has_record self e"
      unfolding m by auto
  qed
  show "\<forall>(e, v) \<in> set out. auto_arima (full_series self e) = Inr v" by (rule f)
next
  assume a: "''year'' \<in> set (columns (combined_data self))
        \<and> ''comune'' \<in> set (columns (combined_data self))
        \<and> ''cns deaths'' \<in> set (columns (combined_data self))
        \<and> (\<forall>e. has_record self e \<longrightarrow> (\<exists>v. auto_arima (full_series self e) = Inr v))"
  then have "\<exists>res. upcoming_loop auto_arima self
      (unique (map (\<lambda>r. cell_at r ''comune'') (rows (combined_data self)))) [] = Inr res"
    by (intro upcoming_loop_total) auto
  with a show "\<exists>res. predict_upcoming_year auto_arima self year = Inr res"
    by (simp add: predict_upcoming_year_def df_col_def)
qed

theorem upcoming_year_ignores_year_witness:
  "predict_upcoming_year constant_fit example_self 2020 = Inr [(Str ''A'', 5), (Str ''B'', 5)]
   \<and> predict_upcoming_year constant_fit example_self 1999 = Inr [(Str ''A'', 5), (Str ''B'', 5)]
   \<and> df_col (combined_data example_self) ''comune'' = Inr [Str ''A'', Str ''B'', Str ''A'']
   \<and> (\<forall>e. e \<in> set (map fst [(Str ''A'', 5::real), (Str ''B'', 5)]) \<longleftrightarrow> has_record example_self e)
   \<and> constant_fit (full_series example_self (Str ''A'')) = Inr 5
   \<and> constant_fit (full_series example_self (Str ''B'')) = Inr 5
   \<and> full_series example_self (Str ''A'') = [Num 3, Num 5]
   \<and> full_series example_self (Str ''B'') = [Num 4]
   \<and> ''year'' \<in> set (columns (combined_data example_self))
   \<and> ''comune'' \<in> set (columns (combined_data example_self))
   \<and> ''cns deaths'' \<in> set (columns (combined_data example_self))"
proof -
  note t = upcoming_year_ignores_year [of constant_fit example_self 2020 1999
      "[(Str ''A'', 5), (Str ''B'', 5)]" "[Str ''A'', Str ''B'', Str ''A'']"]
  from t have "predict_upcoming_year constant_fit example_self 2020
      = predict_upcoming_year constant_fit example_self 1999"
    by (rule conjunct1)
  then have y: "predict_upcoming_year constant_fit example_self 1999
      = Inr [(Str ''A'', 5), (Str ''B'', 5)]"
    by (simp add: example_upcoming)
  from t example_upcoming example_self_facts(1)
  have h: "\<forall>e. e \<in> set (map fst [(Str ''A'', 5::real), (Str ''B'', 5)]) \<longleftrightarrow> has_record example_self e"
    by blast
  have "constant_fit (full_series example_self (Str ''A'')) = Inr 5"
    "constant_fit (full_series example_self (Str ''B'')) = Inr 5"
    by (simp_all add: constant_fit_def)
  with y h example_upcoming example_self_facts show ?thesis by blast
qed

section \<open>The scores of a perfect prediction\<close>

lemma sequence_to_float_Num: "sequence (map to_float (map Num y)) = Inr y"
  by (induction y) auto

lemma check_targets_Num: "y \<noteq> [] \<Longrightarrow> check_targets (map Num y) y = Inr y"
  by (simp add: check_targets_def sequence_to_float_Num del: map_map)

lemma residuals_same: "residuals y y = replicate (length y) 0"
  by (induction y) (auto simp: residuals_def)

lemma sum_list_replicate_0: "sum_list (replicate n (0::real)) = 0"
  by (induction n) auto

lemma mean_replicate_0: "mean (replicate n 0) = 0"
  by (simp add: mean_def sum_list_replicate_0)

lemma sort_replicate: "sort (replicate n (x::real)) = replicate n x"
  by (induction n) (auto simp: insort_is_Cons)

lemma median_replicate_0: "0 < n \<Longrightarrow> median (replicate n 0) = 0"
  by (auto simp: median_def Let_def sort_replicate)

lemma perfect_mse: "mean_squared_error y y = 0"
  by (simp add: mean_squared_error_def residuals_same mean_replicate_0)

lemma perfect_mae: "mean_absolute_error y y = 0"
  by (simp add: mean_absolute_error_def residuals_same mean_replicate_0)

lemma perfect_medae: "y \<noteq> [] \<Longrightarrow> median_absolute_error y y = 0"
  by (simp add: median_absolute_error_def residuals_same median_replicate_0)

lemma perfect_evs: "explained_variance_score y y = 1"
  by (simp add: explained_variance_score_def residuals_same mean_replicate_0 score_ratio_def Let_def)

lemma perfect_r2: "r2_score y y = (if length y < 2 then None else Some 1)"
  by (simp add: r2_score_def residuals_same sum_list_replicate_0 score_ratio_def)

lemma perfect_compute: "y \<noteq> [] \<Longrightarrow> compute_scores (map Num y) y = Inr (perfect_scores (length y))"
  by (simp add: compute_scores_def check_targets_Num perfect_mse perfect_mae perfect_medae
      perfect_evs perfect_r2 perfect_scores_def)

text \<open>
  Claim C8, as the spec states it, fails on a sequence of one value: the coefficient of
  determination of fewer than two samples is \<^verbatim>\<open>nan\<close>, not 1.
\<close>

theorem single_sample_counterexample:
  "compute_scores [Num 5] [5]
     = Inr \<lparr>mse = 0, rmse = 0, r2 = None, evs = 1, mae = 0, medae = 0\<rparr>
   \<and> calculate_evaluation_metrics [(Str ''A'', 5, Num 5)]
     = Inr \<lparr>mse = 0, rmse = 0, r2 = None, evs = 1, mae = 0, medae = 0\<rparr>"
  by (simp add: calculate_evaluation_metrics_def compute_scores_def check_targets_def
      mean_squared_error_def r2_score_def explained_variance_score_def mean_absolute_error_def
      median_absolute_error_def residuals_def mean_def median_def score_ratio_def)

text \<open>
  Claim C8, amended. For a non-empty sequence \<open>y\<close> of numbers taken as truth and as
  prediction, by the scoring step itself, by \<open>calculate_evaluation_metrics\<close> on
  predictions that carry these values and by \<open>evaluate\<close>: the mean squared error, its
  root, the mean absolute error and the median absolute error are 0 and the explained
  variance is 1; the coefficient of determination is 1 when \<open>y\<close> has at least two values
  and \<^verbatim>\<open>nan\<close> when it has one.
\<close>

theorem perfect_prediction_scores:
  "y \<noteq> [] \<longrightarrow>
     compute_scores (map Num y) y = Inr (perfect_scores (length y))
     \<and> (length cs = length y \<longrightarrow>
          calculate_evaluation_metrics (map (\<lambda>(c, v). (c, v, Num v)) (zip cs y))
            = Inr (perfect_scores (length y)))
     \<and> (y_test self = Some (map Num y) \<and> y_pred self = Some y \<longrightarrow>
          evaluate self = Inr (self\<lparr>xgb_metrics := Some (perfect_scores (length y))\<rparr>))"
proof (intro impI conjI)
  assume y: "y \<noteq> []"
  show c: "compute_scores (map Num y) y = Inr (perfect_scores (length y))"
    by (rule perfect_compute [OF y])
  show "calculate_evaluation_metrics (map (\<lambda>(c, v). (c, v, Num v)) (zip cs y))
            = Inr (perfect_scores (length y))" if l: "length cs = length y"
  proof -
    have "map (\<lambda>p. snd (snd p)) (map (\<lambda>(c, v). (c, v, Num v)) (zip cs y)) = map Num (map snd (zip cs y))"
      by (simp add: comp_def split_def)
    moreover have "map (\<lambda>p. fst (snd p)) (map (\<lambda>(c, v). (c, v, Num v)) (zip cs y)) = map snd (zip cs y)"
      by (simp add: comp_def split_def)
    moreover have "map snd (zip cs y) = y" using l by simp
    ultimately show ?thesis
      by (simp only: calculate_evaluation_metrics_def Let_def c)
  qed
  show "evaluate self = Inr (self\<lparr>xgb_metrics := Some (perfect_scores (length y))\<rparr>)"
    if "y_test self = Some (map Num y) \<and> y_pred self = Some y"
    using that by (simp add: evaluate_def c)
qed

theorem perfect_prediction_scores_witness:
  "[3, 4] \<noteq> ([] :: real list)
   \<and> compute_scores [Num 3, Num 4] [3, 4]
       = Inr \<lparr>mse = 0, rmse = 0, r2 = Some 1, evs = 1, mae = 0, medae = 0\<rparr>
   \<and> length [Str ''A'', Str ''B''] = length [3, 4 :: real]
   \<and> calculate_evaluation_metrics [(Str ''A'', 3, Num 3), (Str ''B'', 4, Num 4)]
       = Inr \<lparr>mse = 0, rmse = 0, r2 = Some 1, evs = 1, mae = 0, medae = 0\<rparr>
   \<and> y_test example_xgb_scored = Some [Num 3, Num 4] \<and> y_pred example_xgb_scored = Some [3, 4]
   \<and> evaluate example_xgb_scored
       = Inr (example_xgb_scored\<lparr>xgb_metrics :=
            Some \<lparr>mse = 0, rmse = 0, r2 = Some 1, evs = 1, mae = 0, medae = 0\<rparr>\<rparr>)"
  using perfect_prediction_scores [of "[3, 4]" "[Str ''A'', Str ''B'']" example_xgb_scored]
  by (simp add: perfect_scores_def example_xgb_scored_def)

section \<open>The scores do not depend on the order of the samples\<close>















section \<open>The encoding of the municipalities\<close>

lemma index_of_Some: "index_of xs y = Some k \<Longrightarrow> k < length xs \<and> xs ! k = y"
  by (induction xs arbitrary: k) (auto split: if_splits)

lemma index_of_None: "index_of xs y = None \<longleftrightarrow> y \<notin> set xs"
  by (induction xs) auto

lemma strs_of_set:
  "set (concat (map (\<lambda>y. case y of Str s \<Rightarrow> [s] | _ \<Rightarrow> []) xs)) = {s. Str s \<in> set xs}"
  by (induction xs) (auto split: cell.splits)

lemma nums_of_set:
  "set (concat (map (\<lambda>y. case y of Num x \<Rightarrow> [x] | _ \<Rightarrow> []) xs)) = {x. Num x \<in> set xs}"
  by (induction xs) (auto split: cell.splits)

lemma strs_of_distinct:
  "distinct xs \<Longrightarrow> distinct (concat (map (\<lambda>y. case y of Str s \<Rightarrow> [s] | _ \<Rightarrow> []) xs))"
  by (induction xs) (auto simp: strs_of_set split: cell.splits)

lemma nums_of_distinct:
  "distinct xs \<Longrightarrow> distinct (concat (map (\<lambda>y. case y of Num x \<Rightarrow> [x] | _ \<Rightarrow> []) xs))"
  by (induction xs) (auto simp: nums_of_set split: cell.splits)

lemma le_fit_Inr:
  assumes "le_fit ys = Inr classes"
  shows "distinct classes" and "set classes = set ys"
proof -
  let ?strs = "concat (map (\<lambda>y. case y of Str s \<Rightarrow> [s] | _ \<Rightarrow> []) (unique ys))"
  let ?nums = "concat (map (\<lambda>y. case y of Num x \<Rightarrow> [x] | _ \<Rightarrow> []) (unique ys))"
  from assms have c: "classes = map Str (sort ?strs) @ map Num (sort ?nums) @
                   (if NaN \<in> set ys then [NaN] else [])"
    by (auto simp: le_fit_def Let_def split: if_splits)
  have "distinct (map Str (sort ?strs))" "distinct (map Num (sort ?nums))"
    by (simp_all add: distinct_map strs_of_distinct nums_of_distinct inj_on_def)
  then show "distinct classes" unfolding c by auto
  show "set classes = set ys"
  proof (rule set_eqI)
    fix x show "x \<in> set classes \<longleftrightarrow> x \<in> set ys"
      unfolding c by (cases x) (auto simp: strs_of_set nums_of_set)
  qed
qed

lemma le_transform_total:
  assumes "set ys \<subseteq> set classes"
  shows "le_transform classes ys = Inr (map (\<lambda>y. Num (real (the (index_of classes y)))) ys)"
proof -
  have "\<And>y. y \<in> set ys \<Longrightarrow>
      (case index_of classes y of None \<Rightarrow> Inl ValueError | Some k \<Rightarrow> Inr (Num (real k)))
      = Inr (Num (real (the (index_of classes y))))"
  proof -
    fix y assume "y \<in> set ys"
    with assms have "index_of classes y \<noteq> None" by (auto simp: index_of_None)
    then show "(case index_of classes y of None \<Rightarrow> Inl ValueError | Some k \<Rightarrow> Inr (Num (real k)))
      = Inr (Num (real (the (index_of classes y))))" by auto
  qed
  then show ?thesis unfolding le_transform_def by (rule sequence_all_Inr)
qed

lemma fit_transform_Inr:
  assumes "fit_transform ys = Inr (classes, codes)"
  shows "le_fit ys = Inr classes"
    and "le_transform classes ys = Inr codes"
    and "codes = map (\<lambda>y. Num (real (the (index_of classes y)))) ys"
proof -
  from assms show f: "le_fit ys = Inr classes" and t: "le_transform classes ys = Inr codes"
    by (auto simp: fit_transform_def split: sum.splits)
  from le_fit_Inr(2) [OF f] have "set ys \<subseteq> set classes" by simp
  from le_transform_total [OF this] t
  show "codes = map (\<lambda>y. Num (real (the (index_of classes y)))) ys" by simp
qed

lemma code_of_member:
  assumes "y \<in> set classes"
  shows "\<exists>k < length classes. the (index_of classes y) = k \<and> classes ! k = y"
proof -
  from assms obtain k where "index_of classes y = Some k"
    by (cases "index_of classes y") (auto simp: index_of_None)
  with index_of_Some [OF this] show ?thesis by auto
qed

lemma length_rows_set_col:
  "length vs = length (rows df) \<Longrightarrow> length (rows (df_set_col c vs df)) = length (rows df)"
  by (simp add: df_set_col_def)

lemma xgb_init_Inr:
  assumes "xgb_init wb = Inr self"
  shows "\<exists>d codes. xgb_prepare_data wb = Inr d
      \<and> fit_transform (comune_column d) = Inr (le_classes self, codes)
      \<and> data self = df_set_col ''comune'' codes d"
proof -
  from assms obtain d where d: "xgb_prepare_data wb = Inr d"
    by (auto simp: xgb_init_def split: sum.splits)
  from d have "columns d = [''year'', ''comune'', ''PM2.5'', ''PM10'', ''cns deaths'']"
    by (auto simp: xgb_prepare_data_def split: sum.splits dest: df_select_Inr(1))
  then have col: "df_col d ''comune'' = Inr (comune_column d)"
    by (simp add: df_col_def comune_column_def)
  from assms show ?thesis
    by (auto simp: xgb_init_def d col split: sum.splits prod.splits)
qed

lemma example_tab_fit:
  "fit_transform [Str ''B'', Str ''A'', Str ''A''] = Inr ([Str ''A'', Str ''B''], [Num 1, Num 0, Num 0])"
proof -
  have "sort [''B'', ''A''] = [''A'', ''B'']" by code_simp
  then have "le_fit [Str ''B'', Str ''A'', Str ''A''] = Inr [Str ''A'', Str ''B'']"
    by (simp add: le_fit_def unique_def)
  then show ?thesis
    by (simp add: fit_transform_def le_transform_def)
qed

lemma example_tab_init: "xgb_init example_tab_wb = Inr example_tab_self"
  by (simp add: xgb_init_def example_tab_prepare df_col_def cell_at_def example_tab_fit
      df_set_col_def example_tab_self_def)

lemma example_tab_split_ok: "\<not> isl (xgb_split_data example_tab_self)"
  by (simp add: xgb_split_data_def example_tab_self_def df_col_def cell_at_def df_mask_def
      df_select_def Let_def)

text \<open>
  Claim C7. When the tabular forecaster has been built from a workbook: the encoder's
  classes are those fitted on the municipality column of the whole assembled dataset, each
  municipality of the dataset once; the municipality column of the stored data is the
  transform of that column by these classes; the code of every record is a position in
  the classes, and at that position stands the record's municipality, so that two records
  have the same code exactly when they have the same municipality; transforming a record's
  municipality again with these classes gives the code stored for it; and \<open>split_data\<close>
  leaves the classes as they are and puts into the training and test sets only records of
  the stored data, each with a code that is a position in the classes.
\<close>

theorem label_encoding_stable:
  assumes "xgb_init wb = Inr self"
  shows "\<exists>d. xgb_prepare_data wb = Inr d
      \<and> le_fit (comune_column d) = Inr (le_classes self)
      \<and> distinct (le_classes self) \<and> set (le_classes self) = set (comune_column d)
      \<and> le_transform (le_classes self) (comune_column d) = Inr (comune_column (data self))
      \<and> length (rows (data self)) = length (rows d)
      \<and> (\<forall>i < length (rows d). \<exists>k < length (le_classes self).
            comune_column (data self) ! i = Num (real k)
            \<and> le_classes self ! k = comune_column d ! i)
      \<and> (\<forall>i < length (rows d). \<forall>j < length (rows d).
            comune_column (data self) ! i = comune_column (data self) ! j
            \<longleftrightarrow> comune_column d ! i = comune_column d ! j)
      \<and> (\<forall>i < length (rows d).
            le_transform (le_classes self) [comune_column d ! i]
              = Inr [comune_column (data self) ! i])
      \<and> (\<forall>s. xgb_split_data self = Inr s \<longrightarrow>
            le_classes s = le_classes self
            \<and> (\<forall>r \<in> set (rows_of (xgb_train_data s)) \<union> set (rows_of (xgb_test_data s)).
                  r \<in> set (rows (data self))
                  \<and> (\<exists>k < length (le_classes self). cell_at r ''comune'' = Num (real k))))"
proof -
  from xgb_init_Inr [OF assms] obtain d codes where
    d: "xgb_prepare_data wb = Inr d"
    and ft: "fit_transform (comune_column d) = Inr (le_classes self, codes)"
    and ds: "data self = df_set_col ''comune'' codes d"
    by blast
  let ?cs = "comune_column d" and ?classes = "le_classes self"
  note f = fit_transform_Inr [OF ft]
  note c = le_fit_Inr [OF f(1)]
  have lc: "length codes = length (rows d)"
    by (simp add: f(3) comune_column_def)
  have col: "comune_column (data self) = codes"
    unfolding comune_column_def ds by (rule col_set_col [OF lc])
  have len: "length (rows (data self)) = length (rows d)"
    unfolding ds by (rule length_rows_set_col [OF lc])
  have code: "\<exists>k < length ?classes. codes ! i = Num (real k) \<and> ?classes ! k = ?cs ! i"
    if i: "i < length (rows d)" for i
  proof -
    from i have "?cs ! i \<in> set ?classes"
      unfolding c(2) by (simp add: comune_column_def)
    from code_of_member [OF this] obtain k where
      "k < length ?classes" "the (index_of ?classes (?cs ! i)) = k" "?classes ! k = ?cs ! i"
      by blast
    moreover from i have "codes ! i = Num (real (the (index_of ?classes (?cs ! i))))"
      by (simp add: f(3) comune_column_def)
    ultimately show ?thesis by auto
  qed
  have inj: "codes ! i = codes ! j \<longleftrightarrow> ?cs ! i = ?cs ! j"
    if i: "i < length (rows d)" and j: "j < length (rows d)" for i j
  proof
    assume e: "codes ! i = codes ! j"
    from code [OF i] obtain k where k: "codes ! i = Num (real k)" "?classes ! k = ?cs ! i" by blast
    from code [OF j] obtain k' where k': "codes ! j = Num (real k')" "?classes ! k' = ?cs ! j" by blast
    from e k(1) k'(1) have "k = k'" by simp
    with k(2) k'(2) show "?cs ! i = ?cs ! j" by simp
  next
    assume "?cs ! i = ?cs ! j"
    with i j show "codes ! i = codes ! j" by (simp add: f(3) comune_column_def)
  qed
  have again: "le_transform ?classes [?cs ! i] = Inr [codes ! i]"
    if i: "i < length (rows d)" for i
  proof -
    from i have "set [?cs ! i] \<subseteq> set ?classes"
      unfolding c(2) by (simp add: comune_column_def)
    from le_transform_total [OF this] i show ?thesis
      by (simp add: f(3) comune_column_def)
  qed
  have rowcode: "\<exists>k < length ?classes. cell_at r ''comune'' = Num (real k)"
    if r: "r \<in> set (rows (data self))" for r
  proof -
    from r obtain i where i: "i < length (rows (data self))" "rows (data self) ! i = r"
      by (auto simp: in_set_conv_nth)
    then have "cell_at r ''comune'' = comune_column (data self) ! i"
      by (simp add: comune_column_def)
    with code [of i] i len show ?thesis by (auto simp: col)
  qed
  have split: "le_classes s = ?classes
        \<and> (\<forall>r \<in> set (rows_of (xgb_train_data s)) \<union> set (rows_of (xgb_test_data s)).
              r \<in> set (rows (data self))
              \<and> (\<exists>k < length ?classes. cell_at r ''comune'' = Num (real k)))"
    if s: "xgb_split_data self = Inr s" for s
  proof -
    from s have l: "le_classes s = ?classes"
      by (auto simp: xgb_split_data_def Let_def split: sum.splits)
    from xgb_split_data_Inr [OF s] obtain tr te where
      "xgb_train_data s = Some tr" "xgb_test_data s = Some te"
      "set (rows tr) \<subseteq> set (rows (data self))" "set (rows te) \<subseteq> set (rows (data self))"
      by auto
    with l rowcode show ?thesis by (auto simp: rows_of_def)
  qed
  from d f(1) c f(2) col len code inj again split show ?thesis
    by (intro exI [of _ d]) (simp add: col)
qed

theorem label_encoding_stable_witness:
  "xgb_init example_tab_wb = Inr example_tab_self
   \<and> le_classes example_tab_self = [Str ''A'', Str ''B'']
   \<and> comune_column (data example_tab_self) = [Num 1, Num 0, Num 0]
   \<and> (\<exists>d. xgb_prepare_data example_tab_wb = Inr d
         \<and> comune_column d = [Str ''B'', Str ''A'', Str ''A'']
         \<and> le_fit (comune_column d) = Inr (le_classes example_tab_self)
         \<and> le_transform (le_classes example_tab_self) (comune_column d)
             = Inr (comune_column (data example_tab_self)))
   \<and> xgb_split_data example_tab_self = Inr (projr (xgb_split_data example_tab_self))
   \<and> le_classes (projr (xgb_split_data example_tab_self)) = [Str ''A'', Str ''B'']"
proof -
  from label_encoding_stable [OF example_tab_init] obtain d where
    d: "xgb_prepare_data example_tab_wb = Inr d"
    and f: "le_fit (comune_column d) = Inr (le_classes example_tab_self)"
    and t: "le_transform (le_classes example_tab_self) (comune_column d)
             = Inr (comune_column (data example_tab_self))"
    and s: "\<forall>s. xgb_split_data example_tab_self = Inr s \<longrightarrow>
            le_classes s = le_classes example_tab_self"
    by blast
  from d have cd: "comune_column d = [Str ''B'', Str ''A'', Str ''A'']"
    by (auto simp: example_tab_prepare comune_column_def cell_at_def)
  from example_tab_split_ok
  have ok: "xgb_split_data example_tab_self = Inr (projr (xgb_split_data example_tab_self))"
    by (cases "xgb_split_data example_tab_self") auto
  with s have "le_classes (projr (xgb_split_data example_tab_self)) = le_classes example_tab_self"
    by blast
  moreover have "le_classes example_tab_self = [Str ''A'', Str ''B'']"
    "comune_column (data example_tab_self) = [Num 1, Num 0, Num 0]"
    by (simp_all add: example_tab_self_def comune_column_def cell_at_def)
  ultimately show ?thesis using example_tab_init d cd f t ok by auto
qed

end
